theory Spec2Isabelle
  imports Complex_Main
begin

section \<open>Data model of the pain-mapping step\<close>

text \<open>
  The embedding follows \<^verbatim>\<open>src/client/src/components/steps/PainMappingStep.tsx\<close>.
  JavaScript numbers are read as exact reals (no rounding of the arithmetic, no
  overflow; the one NaN the handler can compute, \<^verbatim>\<open>0 / 0\<close> on an image of zero
  displayed size, is written out as \<open>None\<close>); integers that the source only ever produces as whole numbers
  (catalog ids, \<^verbatim>\<open>Date.now()\<close>, canvas sizes, alpha bytes, slider values) are
  \<open>nat\<close> or \<open>int\<close>. Field names carry a prefix because \<open>id\<close>, \<open>x\<close>, \<open>width\<close>
  and the rest are shared between the source's interfaces.
\<close>

datatype BodyView = Front | Back

text \<open>\<^verbatim>\<open>interface Hotspot { id; name; x; y; width; height; isDetail? }\<close>; a missing
  \<^verbatim>\<open>isDetail\<close> is falsy, hence \<open>False\<close>.\<close>

record Hotspot =
  hs_id :: nat
  hs_name :: string
  hs_x :: real
  hs_y :: real
  hs_width :: real
  hs_height :: real
  hs_isDetail :: bool

record Coordinates =
  co_x :: real
  co_y :: real

text \<open>\<^verbatim>\<open>PainArea\<close> is imported from \<^verbatim>\<open>data/formData\<close>; the component reads
  \<^verbatim>\<open>area.notes?.includes\<close> and \<^verbatim>\<open>area.coordinates && ...\<close>, so both fields may be
  absent.\<close>

record PainArea =
  pa_id :: string
  pa_region :: string
  pa_intensity :: int
  pa_coordinates :: "Coordinates option"
  pa_notes :: "string option"

text \<open>The hidden canvas holding the raster copy of the displayed image: its size,
  whether \<^verbatim>\<open>getContext('2d')\<close> yields a context, and the alpha byte of each pixel.\<close>

record Canvas =
  cv_width :: nat
  cv_height :: nat
  cv_context2d :: bool
  cv_alpha :: "int \<Rightarrow> int \<Rightarrow> nat"

text \<open>The state the component works on: \<^verbatim>\<open>formData.painAreas\<close>, the two
  \<^verbatim>\<open>useState\<close> cells and \<^verbatim>\<open>canvasRef.current\<close>.\<close>

record State =
  painAreas :: "PainArea list"
  selectedPainAreaId :: "string option"
  currentView :: BodyView
  canvasRef :: "Canvas option"

text \<open>A click as the handler sees it: the pointer position, the image's bounding
  client rectangle, and the clock value \<^verbatim>\<open>Date.now()\<close> returns during the call.\<close>

record Click =
  clientX :: real
  clientY :: real
  rect_left :: real
  rect_top :: real
  rect_width :: real
  rect_height :: real
  date_now :: nat

section \<open>Pain area store\<close>

definition handlePainAreaUpdate :: "PainArea list \<Rightarrow> State \<Rightarrow> State" where
  "handlePainAreaUpdate updatedPainAreas st = st\<lparr>painAreas := updatedPainAreas\<rparr>"

definition removePainArea :: "string \<Rightarrow> State \<Rightarrow> State" where
  "removePainArea idToRemove st =
     (let st' = handlePainAreaUpdate
                  (filter (\<lambda>area. pa_id area \<noteq> idToRemove) (painAreas st)) st
      in if selectedPainAreaId st' = Some idToRemove
         then st'\<lparr>selectedPainAreaId := None\<rparr> else st')"

text \<open>\<^verbatim>\<open>selectedPainAreaId ? painAreas.find(...) : null\<close>: the empty string is falsy
  like \<^verbatim>\<open>null\<close>.\<close>

definition selectedPainArea :: "State \<Rightarrow> PainArea option" where
  "selectedPainArea st =
     (case selectedPainAreaId st of
        None \<Rightarrow> None
      | Some sid \<Rightarrow>
          if sid = [] then None
          else find (\<lambda>area. pa_id area = sid) (painAreas st))"

definition handleIntensityChange :: "int \<Rightarrow> State \<Rightarrow> State" where
  "handleIntensityChange newIntensity st =
     (case selectedPainArea st of
        None \<Rightarrow> st
      | Some _ \<Rightarrow>
          handlePainAreaUpdate
            (map (\<lambda>area. if Some (pa_id area) = selectedPainAreaId st
                         then area\<lparr>pa_intensity := newIntensity\<rparr> else area)
                 (painAreas st)) st)"

text \<open>The marker's \<^verbatim>\<open>onClick\<close>: \<^verbatim>\<open>setSelectedPainAreaId(area.id)\<close>.\<close>

definition setSelectedPainAreaId :: "string option \<Rightarrow> State \<Rightarrow> State" where
  "setSelectedPainAreaId v st = st\<lparr>selectedPainAreaId := v\<rparr>"

text \<open>The store's \<open>setIntensity(id, value)\<close> is reached in the source by selecting the
  record's marker and then moving the slider.\<close>

definition setIntensity :: "string \<Rightarrow> int \<Rightarrow> State \<Rightarrow> State" where
  "setIntensity i v st = handleIntensityChange v (setSelectedPainAreaId (Some i) st)"

text \<open>The tail of \<^verbatim>\<open>handleImageClick\<close>: append the record and select it.\<close>

definition addPainArea :: "PainArea \<Rightarrow> State \<Rightarrow> State" where
  "addPainArea newPainArea st =
     setSelectedPainAreaId (Some (pa_id newPainArea))
       (handlePainAreaUpdate (painAreas st @ [newPainArea]) st)"

section \<open>Strings\<close>

text \<open>Template literals print a non-negative integer in decimal.\<close>

definition digitChar :: "nat \<Rightarrow> char" where
  "digitChar d = ''0123456789'' ! d"

fun string_of_nat :: "nat \<Rightarrow> string" where
  "string_of_nat n =
     (if n < 10 then [digitChar n]
      else string_of_nat (n div 10) @ [digitChar (n mod 10)])"

declare string_of_nat.simps [simp del]

fun startsWith :: "string \<Rightarrow> string \<Rightarrow> bool" where
  "startsWith s [] = True"
| "startsWith [] (c # t) = False"
| "startsWith (a # s) (c # t) = (a = c \<and> startsWith s t)"

text \<open>\<^verbatim>\<open>String.prototype.includes\<close>: the pattern occurs at some position.\<close>

fun includes_str :: "string \<Rightarrow> string \<Rightarrow> bool" where
  "includes_str [] t = (t = [])"
| "includes_str (a # s) t = (startsWith (a # s) t \<or> includes_str s t)"

definition viewName :: "BodyView \<Rightarrow> string" where
  "viewName view = (case view of Front \<Rightarrow> ''front'' | Back \<Rightarrow> ''back'')"

text \<open>The overlay's filter,
  \<^verbatim>\<open>painAreas.filter(area => area.notes?.includes(`View: ${currentView}`))\<close>,
  with the view as an argument.\<close>

definition filterByView :: "BodyView \<Rightarrow> PainArea list \<Rightarrow> PainArea list" where
  "filterByView view areas =
     filter (\<lambda>area. case pa_notes area of
                      None \<Rightarrow> False
                    | Some notes \<Rightarrow> includes_str notes (''View: '' @ viewName view)) areas"

section \<open>Resolver\<close>

definition clickX :: "Click \<Rightarrow> real" where
  "clickX ev = clientX ev - rect_left ev"

definition clickY :: "Click \<Rightarrow> real" where
  "clickY ev = clientY ev - rect_top ev"

definition imageWidth :: "Click \<Rightarrow> real" where
  "imageWidth ev = rect_width ev"

definition imageHeight :: "Click \<Rightarrow> real" where
  "imageHeight ev = rect_height ev"

text \<open>\<^verbatim>\<open>Math.round\<close> rounds halves upwards.\<close>

definition Math_round :: "real \<Rightarrow> int" where
  "Math_round v = \<lfloor>v + 1 / 2\<rfloor>"

text \<open>\<^verbatim>\<open>Math.round((click / displayed) * natural)\<close>. The handler evaluates this
  only after the bounds check \<open>0 \<le> click \<le> displayed\<close>, so a zero divisor means
  \<^verbatim>\<open>0 / 0\<close>, which is NaN in JavaScript and stays NaN through the product and the
  rounding: \<open>None\<close>.\<close>

definition toNatural :: "real \<Rightarrow> real \<Rightarrow> nat \<Rightarrow> int option" where
  "toNatural click displayed natural =
     (if displayed = 0 then None
      else Some (Math_round ((click / displayed) * real natural)))"

text \<open>\<^verbatim>\<open>c < 0 || c >= natural\<close>; every comparison with NaN is false.\<close>

definition outOfRange :: "int option \<Rightarrow> nat \<Rightarrow> bool" where
  "outOfRange c natural =
     (case c of None \<Rightarrow> False | Some k \<Rightarrow> k < 0 \<or> k \<ge> int natural)"

text \<open>\<^verbatim>\<open>ctx.getImageData(sx, sy, 1, 1).data[3]\<close>: the arguments are converted to
  integers (NaN becomes 0), and a pixel outside the canvas reads as transparent
  black.\<close>

definition getImageData_alpha :: "Canvas \<Rightarrow> int option \<Rightarrow> int option \<Rightarrow> nat" where
  "getImageData_alpha canvas sx sy =
     (let px = (case sx of None \<Rightarrow> 0 | Some k \<Rightarrow> k);
          py = (case sy of None \<Rightarrow> 0 | Some k \<Rightarrow> k)
      in if 0 \<le> px \<and> px < int (cv_width canvas) \<and> 0 \<le> py \<and> py < int (cv_height canvas)
         then cv_alpha canvas px py else 0)"

definition hsCenterX :: "Click \<Rightarrow> Hotspot \<Rightarrow> real" where
  "hsCenterX ev hotspot =
     hs_x hotspot * imageWidth ev + (hs_width hotspot * imageWidth ev) / 2"

definition hsCenterY :: "Click \<Rightarrow> Hotspot \<Rightarrow> real" where
  "hsCenterY ev hotspot =
     hs_y hotspot * imageHeight ev + (hs_height hotspot * imageHeight ev) / 2"

definition distance :: "Click \<Rightarrow> Hotspot \<Rightarrow> real" where
  "distance ev hotspot =
     sqrt ((clickX ev - hsCenterX ev hotspot)\<^sup>2 + (clickY ev - hsCenterY ev hotspot)\<^sup>2)"

text \<open>\<^verbatim>\<open>distance < minDistance\<close>, where \<^verbatim>\<open>minDistance\<close> starts as
  \<^verbatim>\<open>Infinity\<close> (\<open>None\<close>).\<close>

definition belowMin :: "real \<Rightarrow> real option \<Rightarrow> bool" where
  "belowMin d minDistance = (case minDistance of None \<Rightarrow> True | Some m \<Rightarrow> d < m)"

text \<open>The \<^verbatim>\<open>for (const hotspot of hotspotsToSearch)\<close> loop on the pair
  \<^verbatim>\<open>(closestHotspot, minDistance)\<close>.\<close>

fun closestLoop ::
  "Click \<Rightarrow> Hotspot list \<Rightarrow> Hotspot option \<times> real option \<Rightarrow> Hotspot option \<times> real option"
where
  "closestLoop ev [] acc = acc"
| "closestLoop ev (hotspot # rest) (closestHotspot, minDistance) =
     (if belowMin (distance ev hotspot) minDistance
      then closestLoop ev rest (Some hotspot, Some (distance ev hotspot))
      else closestLoop ev rest (closestHotspot, minDistance))"

text \<open>Where \<^verbatim>\<open>handleImageClick\<close> leaves: one constructor per \<^verbatim>\<open>return\<close>, in
  the source's order, and \<open>Match\<close> for the hotspot the loop found.\<close>

datatype Outcome =
    OutsideDisplayed
  | CanvasNotReady
  | NoContext
  | OutsideNatural
  | TransparentPixel
  | EmptyCatalog
  | NoClosest
  | Match Hotspot

text \<open>The resolving part of \<^verbatim>\<open>handleImageClick\<close>, with the two catalogs as
  arguments.\<close>

definition resolveWith :: "Hotspot list \<Rightarrow> Hotspot list \<Rightarrow> Click \<Rightarrow> State \<Rightarrow> Outcome" where
  "resolveWith fronts backs ev st =
     (if clickX ev < 0 \<or> clickX ev > imageWidth ev \<or> clickY ev < 0 \<or> clickY ev > imageHeight ev
      then OutsideDisplayed
      else case canvasRef st of
        None \<Rightarrow> CanvasNotReady
      | Some canvas \<Rightarrow>
          if cv_width canvas = 0 \<or> cv_height canvas = 0 then CanvasNotReady
          else
            let naturalWidth = cv_width canvas;
                naturalHeight = cv_height canvas;
                canvasClickX = toNatural (clickX ev) (imageWidth ev) naturalWidth;
                canvasClickY = toNatural (clickY ev) (imageHeight ev) naturalHeight
            in if \<not> cv_context2d canvas then NoContext
               else if outOfRange canvasClickX naturalWidth \<or> outOfRange canvasClickY naturalHeight
               then OutsideNatural
               else if getImageData_alpha canvas canvasClickX canvasClickY < 10
               then TransparentPixel
               else
                 let hotspotsToSearch = (if currentView st = Front then fronts else backs)
                 in if length hotspotsToSearch = 0 then EmptyCatalog
                    else case fst (closestLoop ev hotspotsToSearch (None, None)) of
                           None \<Rightarrow> NoClosest
                         | Some closestHotspot \<Rightarrow> Match closestHotspot)"

text \<open>The record built for the closest hotspot.\<close>

definition newPainArea :: "BodyView \<Rightarrow> Click \<Rightarrow> Hotspot \<Rightarrow> PainArea" where
  "newPainArea view ev closestHotspot =
     (let regionName = hs_name closestHotspot;
          regionIDForNotes = hs_id closestHotspot;
          notes = ''View: '' @ viewName view @ '', RegionID: '' @ string_of_nat regionIDForNotes;
          notes' = (if hs_isDetail closestHotspot
                    then notes @ '', Detail: '' @ hs_name closestHotspot else notes)
      in \<lparr> pa_id = ''point-'' @ string_of_nat (date_now ev),
           pa_region = regionName,
           pa_intensity = 5,
           pa_coordinates = Some \<lparr> co_x = clickX ev / 0.85, co_y = clickY ev / 0.85 \<rparr>,
           pa_notes = Some notes' \<rparr>)"

definition handleImageClickWith :: "Hotspot list \<Rightarrow> Hotspot list \<Rightarrow> Click \<Rightarrow> State \<Rightarrow> State" where
  "handleImageClickWith fronts backs ev st =
     (case resolveWith fronts backs ev st of
        Match closestHotspot \<Rightarrow> addPainArea (newPainArea (currentView st) ev closestHotspot) st
      | _ \<Rightarrow> st)"

text \<open>The radio buttons' \<^verbatim>\<open>onChange\<close>: \<^verbatim>\<open>setCurrentView(view)\<close>.\<close>

definition setCurrentView :: "BodyView \<Rightarrow> State \<Rightarrow> State" where
  "setCurrentView view st = st\<lparr>currentView := view\<rparr>"

section \<open>Hotspot catalogs\<close>

text \<open>The two tables \<^verbatim>\<open>frontHotspots\<close> and \<^verbatim>\<open>backHotspots\<close>, entry by entry in
  the source's order, cut into runs of 25 entries.\<close>

definition frontHotspots_1 :: "Hotspot list" where
  "frontHotspots_1 =
    [\<lparr>hs_id = 1, hs_name = ''Forehead (Central Superior)'', hs_x = 0.45, hs_y = 0.005, hs_width = 0.1, hs_height = 0.02, hs_isDetail = False\<rparr>,
     \<lparr>hs_id = 1, hs_name = ''Forehead (Central Inferior)'', hs_x = 0.45, hs_y = 0.025, hs_width = 0.1, hs_height = 0.02, hs_isDetail = False\<rparr>,
     \<lparr>hs_id = 1, hs_name = ''Forehead (Left Superior)'', hs_x = 0.37, hs_y = 0.005, hs_width = 0.08, hs_height = 0.02, hs_isDetail = False\<rparr>,
     \<lparr>hs_id = 1, hs_name = ''Forehead (Left Inferior)'', hs_x = 0.37, hs_y = 0.025, hs_width = 0.08, hs_height = 0.02, hs_isDetail = False\<rparr>,
     \<lparr>hs_id = 1, hs_name = ''Forehead (Right Superior)'', hs_x = 0.55, hs_y = 0.005, hs_width = 0.08, hs_height = 0.02, hs_isDetail = False\<rparr>,
     \<lparr>hs_id = 1, hs_name = ''Forehead (Right Inferior)'', hs_x = 0.55, hs_y = 0.025, hs_width = 0.08, hs_height = 0.02, hs_isDetail = False\<rparr>,
     \<lparr>hs_id = 1, hs_name = ''Left Temple (Superior)'', hs_x = 0.33, hs_y = 0.03, hs_width = 0.05, hs_height = 0.02, hs_isDetail = False\<rparr>,
     \<lparr>hs_id = 1, hs_name = ''Left Temple (Inferior)'', hs_x = 0.33, hs_y = 0.05, hs_width = 0.05, hs_height = 0.02, hs_isDetail = False\<rparr>,
     \<lparr>hs_id = 1, hs_name = ''Right Temple (Superior)'', hs_x = 0.62, hs_y = 0.03, hs_width = 0.05, hs_height = 0.02, hs_isDetail = False\<rparr>,
     \<lparr>hs_id = 1, hs_name = ''Right Temple (Inferior)'', hs_x = 0.62, hs_y = 0.05, hs_width = 0.05, hs_height = 0.02, hs_isDetail = False\<rparr>,
     \<lparr>hs_id = 1, hs_name = ''Left Eyebrow'', hs_x = 0.38, hs_y = 0.045, hs_width = 0.07, hs_height = 0.01, hs_isDetail = False\<rparr>,
     \<lparr>hs_id = 1, hs_name = ''Right Eyebrow'', hs_x = 0.55, hs_y = 0.045, hs_width = 0.07, hs_height = 0.01, hs_isDetail = False\<rparr>,
     \<lparr>hs_id = 1, hs_name = ''Glabella (Between Eyebrows)'', hs_x = 0.475, hs_y = 0.05, hs_width = 0.05, hs_height = 0.01, hs_isDetail = False\<rparr>,
     \<lparr>hs_id = 1, hs_name = ''Left Upper Eyelid'', hs_x = 0.39, hs_y = 0.058, hs_width = 0.06, hs_height = 0.01, hs_isDetail = False\<rparr>,
     \<lparr>hs_id = 1, hs_name = ''Right Upper Eyelid'', hs_x = 0.55, hs_y = 0.058, hs_width = 0.06, hs_height = 0.01, hs_isDetail = False\<rparr>,
     \<lparr>hs_id = 1, hs_name = ''Left Lower Eyelid'', hs_x = 0.39, hs_y = 0.068, hs_width = 0.06, hs_height = 0.01, hs_isDetail = False\<rparr>,
     \<lparr>hs_id = 1, hs_name = ''Right Lower Eyelid'', hs_x = 0.55, hs_y = 0.068, hs_width = 0.06, hs_height = 0.01, hs_isDetail = False\<rparr>,
     \<lparr>hs_id = 1, hs_name = ''Nose (Bridge)'', hs_x = 0.475, hs_y = 0.07, hs_width = 0.05, hs_height = 0.015, hs_isDetail = False\<rparr>,
     \<lparr>hs_id = 1, hs_name = ''Nose (Dorsum)'', hs_x = 0.475, hs_y = 0.085, hs_width = 0.05, hs_height = 0.015, hs_isDetail = False\<rparr>,
     \<lparr>hs_id = 1, hs_name = ''Nose (Left Ala)'', hs_x = 0.45, hs_y = 0.095, hs_width = 0.03, hs_height = 0.02, hs_isDetail = False\<rparr>,
     \<lparr>hs_id = 1, hs_name = ''Nose (Right Ala)'', hs_x = 0.52, hs_y = 0.095, hs_width = 0.03, hs_height = 0.02, hs_isDetail = False\<rparr>,
     \<lparr>hs_id = 1, hs_name = ''Nose (Tip)'', hs_x = 0.485, hs_y = 0.105, hs_width = 0.03, hs_height = 0.01, hs_isDetail = False\<rparr>,
     \<lparr>hs_id = 1, hs_name = ''Left Cheek (Zygomatic Arch)'', hs_x = 0.35, hs_y = 0.075, hs_width = 0.1, hs_height = 0.02, hs_isDetail = False\<rparr>,
     \<lparr>hs_id = 1, hs_name = ''Right Cheek (Zygomatic Arch)'', hs_x = 0.55, hs_y = 0.075, hs_width = 0.1, hs_height = 0.02, hs_isDetail = False\<rparr>,
     \<lparr>hs_id = 1, hs_name = ''Left Cheek (Buccal Mid)'', hs_x = 0.36, hs_y = 0.095, hs_width = 0.1, hs_height = 0.025, hs_isDetail = False\<rparr>]"

definition frontHotspots_2 :: "Hotspot list" where
  "frontHotspots_2 =
    [\<lparr>hs_id = 1, hs_name = ''Right Cheek (Buccal Mid)'', hs_x = 0.54, hs_y = 0.095, hs_width = 0.1, hs_height = 0.025, hs_isDetail = False\<rparr>,
     \<lparr>hs_id = 1, hs_name = ''Philtrum (Above Upper Lip)'', hs_x = 0.475, hs_y = 0.11, hs_width = 0.05, hs_height = 0.01, hs_isDetail = False\<rparr>,
     \<lparr>hs_id = 1, hs_name = ''Upper Lip'', hs_x = 0.455, hs_y = 0.12, hs_width = 0.09, hs_height = 0.01, hs_isDetail = False\<rparr>,
     \<lparr>hs_id = 1, hs_name = ''Lower Lip'', hs_x = 0.455, hs_y = 0.13, hs_width = 0.09, hs_height = 0.01, hs_isDetail = False\<rparr>,
     \<lparr>hs_id = 1, hs_name = ''Chin (Mentum)'', hs_x = 0.465, hs_y = 0.14, hs_width = 0.07, hs_height = 0.015, hs_isDetail = False\<rparr>,
     \<lparr>hs_id = 1, hs_name = ''Left Mandible (Angle)'', hs_x = 0.35, hs_y = 0.125, hs_width = 0.05, hs_height = 0.03, hs_isDetail = False\<rparr>,
     \<lparr>hs_id = 1, hs_name = ''Right Mandible (Angle)'', hs_x = 0.60, hs_y = 0.125, hs_width = 0.05, hs_height = 0.03, hs_isDetail = False\<rparr>,
     \<lparr>hs_id = 2, hs_name = ''Submental Triangle (Under Chin)'', hs_x = 0.46, hs_y = 0.15, hs_width = 0.08, hs_height = 0.015, hs_isDetail = False\<rparr>,
     \<lparr>hs_id = 2, hs_name = ''Anterior Neck (Hyoid Area)'', hs_x = 0.46, hs_y = 0.165, hs_width = 0.08, hs_height = 0.015, hs_isDetail = False\<rparr>,
     \<lparr>hs_id = 2, hs_name = ''Anterior Neck (Thyroid Cartilage)'', hs_x = 0.46, hs_y = 0.18, hs_width = 0.08, hs_height = 0.015, hs_isDetail = False\<rparr>,
     \<lparr>hs_id = 2, hs_name = ''Anterior Neck (Left Carotid Triangle)'', hs_x = 0.40, hs_y = 0.16, hs_width = 0.06, hs_height = 0.03, hs_isDetail = False\<rparr>,
     \<lparr>hs_id = 2, hs_name = ''Anterior Neck (Right Carotid Triangle)'', hs_x = 0.54, hs_y = 0.16, hs_width = 0.06, hs_height = 0.03, hs_isDetail = False\<rparr>,
     \<lparr>hs_id = 2, hs_name = ''Suprasternal Notch'', hs_x = 0.475, hs_y = 0.195, hs_width = 0.05, hs_height = 0.01, hs_isDetail = False\<rparr>,
     \<lparr>hs_id = 3, hs_name = ''Left Sternoclavicular Joint'', hs_x = 0.43, hs_y = 0.195, hs_width = 0.04, hs_height = 0.02, hs_isDetail = False\<rparr>,
     \<lparr>hs_id = 3, hs_name = ''Left Clavicle (Mid)'', hs_x = 0.35, hs_y = 0.19, hs_width = 0.07, hs_height = 0.02, hs_isDetail = False\<rparr>,
     \<lparr>hs_id = 3, hs_name = ''Left Acromioclavicular Joint'', hs_x = 0.28, hs_y = 0.195, hs_width = 0.05, hs_height = 0.02, hs_isDetail = False\<rparr>,
     \<lparr>hs_id = 4, hs_name = ''Right Sternoclavicular Joint'', hs_x = 0.53, hs_y = 0.195, hs_width = 0.04, hs_height = 0.02, hs_isDetail = False\<rparr>,
     \<lparr>hs_id = 4, hs_name = ''Right Clavicle (Mid)'', hs_x = 0.58, hs_y = 0.19, hs_width = 0.07, hs_height = 0.02, hs_isDetail = False\<rparr>,
     \<lparr>hs_id = 4, hs_name = ''Right Acromioclavicular Joint'', hs_x = 0.67, hs_y = 0.195, hs_width = 0.05, hs_height = 0.02, hs_isDetail = False\<rparr>,
     \<lparr>hs_id = 5, hs_name = ''Manubrium'', hs_x = 0.475, hs_y = 0.21, hs_width = 0.05, hs_height = 0.03, hs_isDetail = False\<rparr>,
     \<lparr>hs_id = 5, hs_name = ''Sternal Body (Upper)'', hs_x = 0.475, hs_y = 0.24, hs_width = 0.05, hs_height = 0.04, hs_isDetail = False\<rparr>,
     \<lparr>hs_id = 5, hs_name = ''Sternal Body (Lower)'', hs_x = 0.475, hs_y = 0.28, hs_width = 0.05, hs_height = 0.04, hs_isDetail = False\<rparr>,
     \<lparr>hs_id = 6, hs_name = ''Left Pectoral (Superior Medial)'', hs_x = 0.40, hs_y = 0.22, hs_width = 0.07, hs_height = 0.04, hs_isDetail = False\<rparr>,
     \<lparr>hs_id = 6, hs_name = ''Left Pectoral (Superior Lateral)'', hs_x = 0.29, hs_y = 0.22, hs_width = 0.11, hs_height = 0.04, hs_isDetail = False\<rparr>,
     \<lparr>hs_id = 6, hs_name = ''Left Pectoral (Inferior Medial)'', hs_x = 0.40, hs_y = 0.26, hs_width = 0.07, hs_height = 0.04, hs_isDetail = False\<rparr>]"

definition frontHotspots_3 :: "Hotspot list" where
  "frontHotspots_3 =
    [\<lparr>hs_id = 6, hs_name = ''Left Pectoral (Inferior Lateral)'', hs_x = 0.29, hs_y = 0.26, hs_width = 0.11, hs_height = 0.04, hs_isDetail = False\<rparr>,
     \<lparr>hs_id = 7, hs_name = ''Right Pectoral (Superior Medial)'', hs_x = 0.53, hs_y = 0.22, hs_width = 0.07, hs_height = 0.04, hs_isDetail = False\<rparr>,
     \<lparr>hs_id = 7, hs_name = ''Right Pectoral (Superior Lateral)'', hs_x = 0.60, hs_y = 0.22, hs_width = 0.11, hs_height = 0.04, hs_isDetail = False\<rparr>,
     \<lparr>hs_id = 7, hs_name = ''Right Pectoral (Inferior Medial)'', hs_x = 0.53, hs_y = 0.26, hs_width = 0.07, hs_height = 0.04, hs_isDetail = False\<rparr>,
     \<lparr>hs_id = 7, hs_name = ''Right Pectoral (Inferior Lateral)'', hs_x = 0.60, hs_y = 0.26, hs_width = 0.11, hs_height = 0.04, hs_isDetail = False\<rparr>,
     \<lparr>hs_id = 12, hs_name = ''Epigastrium (Central)'', hs_x = 0.46, hs_y = 0.32, hs_width = 0.08, hs_height = 0.04, hs_isDetail = False\<rparr>,
     \<lparr>hs_id = 13, hs_name = ''Left Costal Margin (Upper Abdomen)'', hs_x = 0.35, hs_y = 0.32, hs_width = 0.1, hs_height = 0.05, hs_isDetail = False\<rparr>,
     \<lparr>hs_id = 14, hs_name = ''Right Costal Margin (Upper Abdomen)'', hs_x = 0.55, hs_y = 0.32, hs_width = 0.1, hs_height = 0.05, hs_isDetail = False\<rparr>,
     \<lparr>hs_id = 15, hs_name = ''Umbilicus'', hs_x = 0.48, hs_y = 0.38, hs_width = 0.04, hs_height = 0.03, hs_isDetail = False\<rparr>,
     \<lparr>hs_id = 16, hs_name = ''Left Flank (Mid Abdomen)'', hs_x = 0.35, hs_y = 0.37, hs_width = 0.1, hs_height = 0.06, hs_isDetail = False\<rparr>,
     \<lparr>hs_id = 17, hs_name = ''Right Flank (Mid Abdomen)'', hs_x = 0.55, hs_y = 0.37, hs_width = 0.1, hs_height = 0.06, hs_isDetail = False\<rparr>,
     \<lparr>hs_id = 18, hs_name = ''Left Lower Abdomen (Inguinal Ligament Area)'', hs_x = 0.37, hs_y = 0.44, hs_width = 0.08, hs_height = 0.04, hs_isDetail = False\<rparr>,
     \<lparr>hs_id = 19, hs_name = ''Right Lower Abdomen (Inguinal Ligament Area)'', hs_x = 0.55, hs_y = 0.44, hs_width = 0.08, hs_height = 0.04, hs_isDetail = False\<rparr>,
     \<lparr>hs_id = 20, hs_name = ''Pubic Symphysis Area'', hs_x = 0.47, hs_y = 0.49, hs_width = 0.06, hs_height = 0.03, hs_isDetail = False\<rparr>,
     \<lparr>hs_id = 8, hs_name = ''Left Shoulder (Deltoid - Anterior)'', hs_x = 0.26, hs_y = 0.20, hs_width = 0.06, hs_height = 0.05, hs_isDetail = False\<rparr>,
     \<lparr>hs_id = 8, hs_name = ''Left Biceps (Short Head)'', hs_x = 0.25, hs_y = 0.25, hs_width = 0.05, hs_height = 0.08, hs_isDetail = False\<rparr>,
     \<lparr>hs_id = 8, hs_name = ''Left Biceps (Long Head)'', hs_x = 0.22, hs_y = 0.27, hs_width = 0.04, hs_height = 0.08, hs_isDetail = False\<rparr>,
     \<lparr>hs_id = 8, hs_name = ''Left Elbow Crease (Medial)'', hs_x = 0.22, hs_y = 0.36, hs_width = 0.03, hs_height = 0.03, hs_isDetail = False\<rparr>,
     \<lparr>hs_id = 8, hs_name = ''Left Elbow Crease (Lateral)'', hs_x = 0.18, hs_y = 0.36, hs_width = 0.03, hs_height = 0.03, hs_isDetail = False\<rparr>,
     \<lparr>hs_id = 9, hs_name = ''Right Shoulder (Deltoid - Anterior)'', hs_x = 0.68, hs_y = 0.20, hs_width = 0.06, hs_height = 0.05, hs_isDetail = False\<rparr>,
     \<lparr>hs_id = 9, hs_name = ''Right Biceps (Short Head)'', hs_x = 0.70, hs_y = 0.25, hs_width = 0.05, hs_height = 0.08, hs_isDetail = False\<rparr>,
     \<lparr>hs_id = 9, hs_name = ''Right Biceps (Long Head)'', hs_x = 0.74, hs_y = 0.27, hs_width = 0.04, hs_height = 0.08, hs_isDetail = False\<rparr>,
     \<lparr>hs_id = 9, hs_name = ''Right Elbow Crease (Medial)'', hs_x = 0.75, hs_y = 0.36, hs_width = 0.03, hs_height = 0.03, hs_isDetail = False\<rparr>,
     \<lparr>hs_id = 9, hs_name = ''Right Elbow Crease (Lateral)'', hs_x = 0.79, hs_y = 0.36, hs_width = 0.03, hs_height = 0.03, hs_isDetail = False\<rparr>,
     \<lparr>hs_id = 10, hs_name = ''Left Forearm (Volar - Proximal Medial)'', hs_x = 0.20, hs_y = 0.40, hs_width = 0.04, hs_height = 0.06, hs_isDetail = False\<rparr>]"

definition frontHotspots_4 :: "Hotspot list" where
  "frontHotspots_4 =
    [\<lparr>hs_id = 10, hs_name = ''Left Forearm (Volar - Proximal Lateral)'', hs_x = 0.16, hs_y = 0.40, hs_width = 0.04, hs_height = 0.06, hs_isDetail = False\<rparr>,
     \<lparr>hs_id = 10, hs_name = ''Left Forearm (Volar - Distal Medial)'', hs_x = 0.19, hs_y = 0.46, hs_width = 0.04, hs_height = 0.06, hs_isDetail = False\<rparr>,
     \<lparr>hs_id = 10, hs_name = ''Left Forearm (Volar - Distal Lateral)'', hs_x = 0.15, hs_y = 0.46, hs_width = 0.04, hs_height = 0.06, hs_isDetail = False\<rparr>,
     \<lparr>hs_id = 10, hs_name = ''Left Wrist (Palmar Crease)'', hs_x = 0.17, hs_y = 0.52, hs_width = 0.05, hs_height = 0.02, hs_isDetail = False\<rparr>,
     \<lparr>hs_id = 10, hs_name = ''Left Palm (Base of Thumb)'', hs_x = 0.15, hs_y = 0.54, hs_width = 0.03, hs_height = 0.03, hs_isDetail = False\<rparr>,
     \<lparr>hs_id = 10, hs_name = ''Left Palm (Base of Pinky)'', hs_x = 0.19, hs_y = 0.55, hs_width = 0.02, hs_height = 0.03, hs_isDetail = False\<rparr>,
     \<lparr>hs_id = 10, hs_name = ''Left Palm (Center)'', hs_x = 0.17, hs_y = 0.56, hs_width = 0.03, hs_height = 0.03, hs_isDetail = False\<rparr>,
     \<lparr>hs_id = 10, hs_name = ''Left Thumb (Volar)'', hs_x = 0.13, hs_y = 0.58, hs_width = 0.02, hs_height = 0.05, hs_isDetail = False\<rparr>,
     \<lparr>hs_id = 10, hs_name = ''Left Index Finger (Volar)'', hs_x = 0.14, hs_y = 0.61, hs_width = 0.02, hs_height = 0.05, hs_isDetail = False\<rparr>,
     \<lparr>hs_id = 10, hs_name = ''Left Middle Finger (Volar)'', hs_x = 0.16, hs_y = 0.62, hs_width = 0.02, hs_height = 0.05, hs_isDetail = False\<rparr>,
     \<lparr>hs_id = 10, hs_name = ''Left Ring Finger (Volar)'', hs_x = 0.18, hs_y = 0.61, hs_width = 0.02, hs_height = 0.05, hs_isDetail = False\<rparr>,
     \<lparr>hs_id = 10, hs_name = ''Left Pinky Finger (Volar)'', hs_x = 0.20, hs_y = 0.60, hs_width = 0.02, hs_height = 0.05, hs_isDetail = False\<rparr>,
     \<lparr>hs_id = 11, hs_name = ''Right Forearm (Volar - Proximal Medial)'', hs_x = 0.76, hs_y = 0.40, hs_width = 0.04, hs_height = 0.06, hs_isDetail = False\<rparr>,
     \<lparr>hs_id = 11, hs_name = ''Right Forearm (Volar - Proximal Lateral)'', hs_x = 0.80, hs_y = 0.40, hs_width = 0.04, hs_height = 0.06, hs_isDetail = False\<rparr>,
     \<lparr>hs_id = 11, hs_name = ''Right Forearm (Volar - Distal Medial)'', hs_x = 0.77, hs_y = 0.46, hs_width = 0.04, hs_height = 0.06, hs_isDetail = False\<rparr>,
     \<lparr>hs_id = 11, hs_name = ''Right Forearm (Volar - Distal Lateral)'', hs_x = 0.81, hs_y = 0.46, hs_width = 0.04, hs_height = 0.06, hs_isDetail = False\<rparr>,
     \<lparr>hs_id = 11, hs_name = ''Right Wrist (Palmar Crease)'', hs_x = 0.78, hs_y = 0.52, hs_width = 0.05, hs_height = 0.02, hs_isDetail = False\<rparr>,
     \<lparr>hs_id = 11, hs_name = ''Right Palm (Base of Thumb)'', hs_x = 0.82, hs_y = 0.54, hs_width = 0.03, hs_height = 0.03, hs_isDetail = False\<rparr>,
     \<lparr>hs_id = 11, hs_name = ''Right Palm (Base of Pinky)'', hs_x = 0.78, hs_y = 0.55, hs_width = 0.02, hs_height = 0.03, hs_isDetail = False\<rparr>,
     \<lparr>hs_id = 11, hs_name = ''Right Palm (Center)'', hs_x = 0.80, hs_y = 0.56, hs_width = 0.03, hs_height = 0.03, hs_isDetail = False\<rparr>,
     \<lparr>hs_id = 11, hs_name = ''Right Thumb (Volar)'', hs_x = 0.85, hs_y = 0.58, hs_width = 0.02, hs_height = 0.05, hs_isDetail = False\<rparr>,
     \<lparr>hs_id = 11, hs_name = ''Right Index Finger (Volar)'', hs_x = 0.84, hs_y = 0.61, hs_width = 0.02, hs_height = 0.05, hs_isDetail = False\<rparr>,
     \<lparr>hs_id = 11, hs_name = ''Right Middle Finger (Volar)'', hs_x = 0.82, hs_y = 0.62, hs_width = 0.02, hs_height = 0.05, hs_isDetail = False\<rparr>,
     \<lparr>hs_id = 11, hs_name = ''Right Ring Finger (Volar)'', hs_x = 0.80, hs_y = 0.61, hs_width = 0.02, hs_height = 0.05, hs_isDetail = False\<rparr>,
     \<lparr>hs_id = 11, hs_name = ''Right Pinky Finger (Volar)'', hs_x = 0.78, hs_y = 0.60, hs_width = 0.02, hs_height = 0.05, hs_isDetail = False\<rparr>]"

definition frontHotspots_5 :: "Hotspot list" where
  "frontHotspots_5 =
    [\<lparr>hs_id = 21, hs_name = ''Left Hip (Greater Trochanter Area - Anterior)'', hs_x = 0.28, hs_y = 0.49, hs_width = 0.06, hs_height = 0.06, hs_isDetail = False\<rparr>,
     \<lparr>hs_id = 21, hs_name = ''Left Thigh (Anterior Superior)'', hs_x = 0.33, hs_y = 0.54, hs_width = 0.1, hs_height = 0.07, hs_isDetail = False\<rparr>,
     \<lparr>hs_id = 21, hs_name = ''Left Thigh (Anterior Medial)'', hs_x = 0.38, hs_y = 0.60, hs_width = 0.06, hs_height = 0.1, hs_isDetail = False\<rparr>,
     \<lparr>hs_id = 21, hs_name = ''Left Thigh (Anterior Lateral)'', hs_x = 0.29, hs_y = 0.60, hs_width = 0.06, hs_height = 0.1, hs_isDetail = False\<rparr>,
     \<lparr>hs_id = 21, hs_name = ''Left Knee (Suprapatellar)'', hs_x = 0.34, hs_y = 0.69, hs_width = 0.09, hs_height = 0.03, hs_isDetail = False\<rparr>,
     \<lparr>hs_id = 21, hs_name = ''Left Patella'', hs_x = 0.345, hs_y = 0.72, hs_width = 0.08, hs_height = 0.04, hs_isDetail = False\<rparr>,
     \<lparr>hs_id = 21, hs_name = ''Left Knee (Infrapatellar Medial)'', hs_x = 0.38, hs_y = 0.76, hs_width = 0.04, hs_height = 0.03, hs_isDetail = False\<rparr>,
     \<lparr>hs_id = 21, hs_name = ''Left Knee (Infrapatellar Lateral)'', hs_x = 0.31, hs_y = 0.76, hs_width = 0.04, hs_height = 0.03, hs_isDetail = False\<rparr>,
     \<lparr>hs_id = 22, hs_name = ''Right Hip (Greater Trochanter Area - Anterior)'', hs_x = 0.66, hs_y = 0.49, hs_width = 0.06, hs_height = 0.06, hs_isDetail = False\<rparr>,
     \<lparr>hs_id = 22, hs_name = ''Right Thigh (Anterior Superior)'', hs_x = 0.57, hs_y = 0.54, hs_width = 0.1, hs_height = 0.07, hs_isDetail = False\<rparr>,
     \<lparr>hs_id = 22, hs_name = ''Right Thigh (Anterior Medial)'', hs_x = 0.56, hs_y = 0.60, hs_width = 0.06, hs_height = 0.1, hs_isDetail = False\<rparr>,
     \<lparr>hs_id = 22, hs_name = ''Right Thigh (Anterior Lateral)'', hs_x = 0.65, hs_y = 0.60, hs_width = 0.06, hs_height = 0.1, hs_isDetail = False\<rparr>,
     \<lparr>hs_id = 22, hs_name = ''Right Knee (Suprapatellar)'', hs_x = 0.57, hs_y = 0.69, hs_width = 0.09, hs_height = 0.03, hs_isDetail = False\<rparr>,
     \<lparr>hs_id = 22, hs_name = ''Right Patella'', hs_x = 0.575, hs_y = 0.72, hs_width = 0.08, hs_height = 0.04, hs_isDetail = False\<rparr>,
     \<lparr>hs_id = 22, hs_name = ''Right Knee (Infrapatellar Medial)'', hs_x = 0.58, hs_y = 0.76, hs_width = 0.04, hs_height = 0.03, hs_isDetail = False\<rparr>,
     \<lparr>hs_id = 22, hs_name = ''Right Knee (Infrapatellar Lateral)'', hs_x = 0.65, hs_y = 0.76, hs_width = 0.04, hs_height = 0.03, hs_isDetail = False\<rparr>,
     \<lparr>hs_id = 23, hs_name = ''Left Shin (Tibial Tuberosity)'', hs_x = 0.35, hs_y = 0.79, hs_width = 0.07, hs_height = 0.03, hs_isDetail = False\<rparr>,
     \<lparr>hs_id = 23, hs_name = ''Left Shin (Anteromedial)'', hs_x = 0.37, hs_y = 0.82, hs_width = 0.06, hs_height = 0.08, hs_isDetail = False\<rparr>,
     \<lparr>hs_id = 23, hs_name = ''Left Shin (Anterolateral)'', hs_x = 0.30, hs_y = 0.82, hs_width = 0.06, hs_height = 0.08, hs_isDetail = False\<rparr>,
     \<lparr>hs_id = 23, hs_name = ''Left Ankle (Medial Malleolus - Anterior)'', hs_x = 0.38, hs_y = 0.90, hs_width = 0.03, hs_height = 0.03, hs_isDetail = False\<rparr>,
     \<lparr>hs_id = 23, hs_name = ''Left Ankle (Lateral Malleolus - Anterior)'', hs_x = 0.30, hs_y = 0.90, hs_width = 0.03, hs_height = 0.03, hs_isDetail = False\<rparr>,
     \<lparr>hs_id = 23, hs_name = ''Left Foot (Dorsum - Navicular/Cuneiforms)'', hs_x = 0.35, hs_y = 0.925, hs_width = 0.06, hs_height = 0.02, hs_isDetail = False\<rparr>,
     \<lparr>hs_id = 23, hs_name = ''Left Foot (Dorsum - Cuboid/Metatarsals)'', hs_x = 0.30, hs_y = 0.93, hs_width = 0.05, hs_height = 0.02, hs_isDetail = False\<rparr>,
     \<lparr>hs_id = 23, hs_name = ''Left Hallux (Big Toe - Dorsal)'', hs_x = 0.37, hs_y = 0.95, hs_width = 0.03, hs_height = 0.03, hs_isDetail = False\<rparr>,
     \<lparr>hs_id = 23, hs_name = ''Left Toes 2-5 (Dorsal)'', hs_x = 0.31, hs_y = 0.955, hs_width = 0.05, hs_height = 0.03, hs_isDetail = False\<rparr>]"

definition frontHotspots_6 :: "Hotspot list" where
  "frontHotspots_6 =
    [\<lparr>hs_id = 24, hs_name = ''Right Shin (Tibial Tuberosity)'', hs_x = 0.58, hs_y = 0.79, hs_width = 0.07, hs_height = 0.03, hs_isDetail = False\<rparr>,
     \<lparr>hs_id = 24, hs_name = ''Right Shin (Anteromedial)'', hs_x = 0.57, hs_y = 0.82, hs_width = 0.06, hs_height = 0.08, hs_isDetail = False\<rparr>,
     \<lparr>hs_id = 24, hs_name = ''Right Shin (Anterolateral)'', hs_x = 0.64, hs_y = 0.82, hs_width = 0.06, hs_height = 0.08, hs_isDetail = False\<rparr>,
     \<lparr>hs_id = 24, hs_name = ''Right Ankle (Medial Malleolus - Anterior)'', hs_x = 0.59, hs_y = 0.90, hs_width = 0.03, hs_height = 0.03, hs_isDetail = False\<rparr>,
     \<lparr>hs_id = 24, hs_name = ''Right Ankle (Lateral Malleolus - Anterior)'', hs_x = 0.67, hs_y = 0.90, hs_width = 0.03, hs_height = 0.03, hs_isDetail = False\<rparr>,
     \<lparr>hs_id = 24, hs_name = ''Right Foot (Dorsum - Navicular/Cuneiforms)'', hs_x = 0.59, hs_y = 0.925, hs_width = 0.06, hs_height = 0.02, hs_isDetail = False\<rparr>,
     \<lparr>hs_id = 24, hs_name = ''Right Foot (Dorsum - Cuboid/Metatarsals)'', hs_x = 0.65, hs_y = 0.93, hs_width = 0.05, hs_height = 0.02, hs_isDetail = False\<rparr>,
     \<lparr>hs_id = 24, hs_name = ''Right Hallux (Big Toe - Dorsal)'', hs_x = 0.60, hs_y = 0.95, hs_width = 0.03, hs_height = 0.03, hs_isDetail = False\<rparr>,
     \<lparr>hs_id = 24, hs_name = ''Right Toes 2-5 (Dorsal)'', hs_x = 0.64, hs_y = 0.955, hs_width = 0.05, hs_height = 0.03, hs_isDetail = False\<rparr>]"

definition frontHotspots :: "Hotspot list" where
  "frontHotspots =
     frontHotspots_1 @
     frontHotspots_2 @
     frontHotspots_3 @
     frontHotspots_4 @
     frontHotspots_5 @
     frontHotspots_6"

definition backHotspots_1 :: "Hotspot list" where
  "backHotspots_1 =
    [\<lparr>hs_id = 25, hs_name = ''Vertex (Top of Head - Posterior)'', hs_x = 0.45, hs_y = 0.005, hs_width = 0.1, hs_height = 0.02, hs_isDetail = False\<rparr>,
     \<lparr>hs_id = 25, hs_name = ''Occiput (Superior Nuchal Line - Left)'', hs_x = 0.40, hs_y = 0.025, hs_width = 0.07, hs_height = 0.03, hs_isDetail = False\<rparr>,
     \<lparr>hs_id = 25, hs_name = ''Occiput (Superior Nuchal Line - Right)'', hs_x = 0.53, hs_y = 0.025, hs_width = 0.07, hs_height = 0.03, hs_isDetail = False\<rparr>,
     \<lparr>hs_id = 25, hs_name = ''Occiput (Inion/External Occipital Protuberance)'', hs_x = 0.475, hs_y = 0.05, hs_width = 0.05, hs_height = 0.02, hs_isDetail = False\<rparr>,
     \<lparr>hs_id = 25, hs_name = ''Posterior Neck (Suboccipital - Left)'', hs_x = 0.42, hs_y = 0.07, hs_width = 0.06, hs_height = 0.03, hs_isDetail = False\<rparr>,
     \<lparr>hs_id = 25, hs_name = ''Posterior Neck (Suboccipital - Right)'', hs_x = 0.52, hs_y = 0.07, hs_width = 0.06, hs_height = 0.03, hs_isDetail = False\<rparr>,
     \<lparr>hs_id = 25, hs_name = ''Cervical Spine (C2-C4 Spinous Processes)'', hs_x = 0.475, hs_y = 0.10, hs_width = 0.05, hs_height = 0.03, hs_isDetail = False\<rparr>,
     \<lparr>hs_id = 25, hs_name = ''Cervical Spine (C5-C7 Spinous Processes)'', hs_x = 0.475, hs_y = 0.13, hs_width = 0.05, hs_height = 0.03, hs_isDetail = False\<rparr>,
     \<lparr>hs_id = 25, hs_name = ''Posterior Neck (Lateral - Left)'', hs_x = 0.39, hs_y = 0.10, hs_width = 0.06, hs_height = 0.05, hs_isDetail = False\<rparr>,
     \<lparr>hs_id = 25, hs_name = ''Posterior Neck (Lateral - Right)'', hs_x = 0.55, hs_y = 0.10, hs_width = 0.06, hs_height = 0.05, hs_isDetail = False\<rparr>,
     \<lparr>hs_id = 26, hs_name = ''Left Acromion (Posterior)'', hs_x = 0.28, hs_y = 0.16, hs_width = 0.05, hs_height = 0.03, hs_isDetail = False\<rparr>,
     \<lparr>hs_id = 26, hs_name = ''Left Supraspinatus Area'', hs_x = 0.33, hs_y = 0.17, hs_width = 0.08, hs_height = 0.04, hs_isDetail = False\<rparr>,
     \<lparr>hs_id = 26, hs_name = ''Left Scapular Spine'', hs_x = 0.30, hs_y = 0.21, hs_width = 0.12, hs_height = 0.02, hs_isDetail = False\<rparr>,
     \<lparr>hs_id = 26, hs_name = ''Left Infraspinatus Area'', hs_x = 0.32, hs_y = 0.23, hs_width = 0.1, hs_height = 0.06, hs_isDetail = False\<rparr>,
     \<lparr>hs_id = 26, hs_name = ''Left Teres Major/Minor Area'', hs_x = 0.28, hs_y = 0.25, hs_width = 0.07, hs_height = 0.05, hs_isDetail = False\<rparr>,
     \<lparr>hs_id = 27, hs_name = ''Right Acromion (Posterior)'', hs_x = 0.67, hs_y = 0.16, hs_width = 0.05, hs_height = 0.03, hs_isDetail = False\<rparr>,
     \<lparr>hs_id = 27, hs_name = ''Right Supraspinatus Area'', hs_x = 0.59, hs_y = 0.17, hs_width = 0.08, hs_height = 0.04, hs_isDetail = False\<rparr>,
     \<lparr>hs_id = 27, hs_name = ''Right Scapular Spine'', hs_x = 0.58, hs_y = 0.21, hs_width = 0.12, hs_height = 0.02, hs_isDetail = False\<rparr>,
     \<lparr>hs_id = 27, hs_name = ''Right Infraspinatus Area'', hs_x = 0.58, hs_y = 0.23, hs_width = 0.1, hs_height = 0.06, hs_isDetail = False\<rparr>,
     \<lparr>hs_id = 27, hs_name = ''Right Teres Major/Minor Area'', hs_x = 0.65, hs_y = 0.25, hs_width = 0.07, hs_height = 0.05, hs_isDetail = False\<rparr>,
     \<lparr>hs_id = 28, hs_name = ''Left Deltoid (Posterior Head)'', hs_x = 0.28, hs_y = 0.19, hs_width = 0.06, hs_height = 0.06, hs_isDetail = False\<rparr>,
     \<lparr>hs_id = 28, hs_name = ''Left Triceps (Lateral Head)'', hs_x = 0.25, hs_y = 0.25, hs_width = 0.05, hs_height = 0.09, hs_isDetail = False\<rparr>,
     \<lparr>hs_id = 28, hs_name = ''Left Triceps (Long Head)'', hs_x = 0.29, hs_y = 0.26, hs_width = 0.05, hs_height = 0.09, hs_isDetail = False\<rparr>,
     \<lparr>hs_id = 29, hs_name = ''Right Deltoid (Posterior Head)'', hs_x = 0.66, hs_y = 0.19, hs_width = 0.06, hs_height = 0.06, hs_isDetail = False\<rparr>,
     \<lparr>hs_id = 29, hs_name = ''Right Triceps (Lateral Head)'', hs_x = 0.70, hs_y = 0.25, hs_width = 0.05, hs_height = 0.09, hs_isDetail = False\<rparr>]"

definition backHotspots_2 :: "Hotspot list" where
  "backHotspots_2 =
    [\<lparr>hs_id = 29, hs_name = ''Right Triceps (Long Head)'', hs_x = 0.66, hs_y = 0.26, hs_width = 0.05, hs_height = 0.09, hs_isDetail = False\<rparr>,
     \<lparr>hs_id = 30, hs_name = ''Left Olecranon (Elbow Tip)'', hs_x = 0.24, hs_y = 0.35, hs_width = 0.04, hs_height = 0.03, hs_isDetail = False\<rparr>,
     \<lparr>hs_id = 30, hs_name = ''Left Forearm (Dorsal - Proximal Ulnar)'', hs_x = 0.23, hs_y = 0.38, hs_width = 0.04, hs_height = 0.06, hs_isDetail = False\<rparr>,
     \<lparr>hs_id = 30, hs_name = ''Left Forearm (Dorsal - Proximal Radial)'', hs_x = 0.19, hs_y = 0.39, hs_width = 0.04, hs_height = 0.06, hs_isDetail = False\<rparr>,
     \<lparr>hs_id = 30, hs_name = ''Left Forearm (Dorsal - Distal Ulnar)'', hs_x = 0.22, hs_y = 0.44, hs_width = 0.04, hs_height = 0.07, hs_isDetail = False\<rparr>,
     \<lparr>hs_id = 30, hs_name = ''Left Forearm (Dorsal - Distal Radial)'', hs_x = 0.18, hs_y = 0.45, hs_width = 0.04, hs_height = 0.07, hs_isDetail = False\<rparr>,
     \<lparr>hs_id = 31, hs_name = ''Right Olecranon (Elbow Tip)'', hs_x = 0.72, hs_y = 0.35, hs_width = 0.04, hs_height = 0.03, hs_isDetail = False\<rparr>,
     \<lparr>hs_id = 31, hs_name = ''Right Forearm (Dorsal - Proximal Ulnar)'', hs_x = 0.73, hs_y = 0.38, hs_width = 0.04, hs_height = 0.06, hs_isDetail = False\<rparr>,
     \<lparr>hs_id = 31, hs_name = ''Right Forearm (Dorsal - Proximal Radial)'', hs_x = 0.77, hs_y = 0.39, hs_width = 0.04, hs_height = 0.06, hs_isDetail = False\<rparr>,
     \<lparr>hs_id = 31, hs_name = ''Right Forearm (Dorsal - Distal Ulnar)'', hs_x = 0.74, hs_y = 0.44, hs_width = 0.04, hs_height = 0.07, hs_isDetail = False\<rparr>,
     \<lparr>hs_id = 31, hs_name = ''Right Forearm (Dorsal - Distal Radial)'', hs_x = 0.78, hs_y = 0.45, hs_width = 0.04, hs_height = 0.07, hs_isDetail = False\<rparr>,
     \<lparr>hs_id = 32, hs_name = ''Left Wrist (Dorsum)'', hs_x = 0.20, hs_y = 0.51, hs_width = 0.05, hs_height = 0.03, hs_isDetail = False\<rparr>,
     \<lparr>hs_id = 32, hs_name = ''Left Hand (Dorsum - Metacarpals)'', hs_x = 0.18, hs_y = 0.54, hs_width = 0.06, hs_height = 0.05, hs_isDetail = False\<rparr>,
     \<lparr>hs_id = 32, hs_name = ''Left Thumb (Dorsal)'', hs_x = 0.15, hs_y = 0.57, hs_width = 0.02, hs_height = 0.04, hs_isDetail = False\<rparr>,
     \<lparr>hs_id = 32, hs_name = ''Left Fingers 2-5 (Dorsal)'', hs_x = 0.17, hs_y = 0.59, hs_width = 0.05, hs_height = 0.05, hs_isDetail = False\<rparr>,
     \<lparr>hs_id = 33, hs_name = ''Right Wrist (Dorsum)'', hs_x = 0.75, hs_y = 0.51, hs_width = 0.05, hs_height = 0.03, hs_isDetail = False\<rparr>,
     \<lparr>hs_id = 33, hs_name = ''Right Hand (Dorsum - Metacarpals)'', hs_x = 0.76, hs_y = 0.54, hs_width = 0.06, hs_height = 0.05, hs_isDetail = False\<rparr>,
     \<lparr>hs_id = 33, hs_name = ''Right Thumb (Dorsal)'', hs_x = 0.83, hs_y = 0.57, hs_width = 0.02, hs_height = 0.04, hs_isDetail = False\<rparr>,
     \<lparr>hs_id = 33, hs_name = ''Right Fingers 2-5 (Dorsal)'', hs_x = 0.78, hs_y = 0.59, hs_width = 0.05, hs_height = 0.05, hs_isDetail = False\<rparr>,
     \<lparr>hs_id = 34, hs_name = ''Thoracic Spine (T1-T2 - Left Paraspinal)'', hs_x = 0.475, hs_y = 0.16, hs_width = 0.025, hs_height = 0.04, hs_isDetail = False\<rparr>,
     \<lparr>hs_id = 34, hs_name = ''Thoracic Spine (T3-T5 - Left Paraspinal)'', hs_x = 0.475, hs_y = 0.20, hs_width = 0.025, hs_height = 0.05, hs_isDetail = False\<rparr>,
     \<lparr>hs_id = 34, hs_name = ''Thoracic Spine (T6-T9 - Left Paraspinal)'', hs_x = 0.475, hs_y = 0.25, hs_width = 0.025, hs_height = 0.07, hs_isDetail = False\<rparr>,
     \<lparr>hs_id = 34, hs_name = ''Thoracic Spine (T10-T12 - Left Paraspinal)'', hs_x = 0.475, hs_y = 0.32, hs_width = 0.025, hs_height = 0.06, hs_isDetail = False\<rparr>,
     \<lparr>hs_id = 34, hs_name = ''Left Upper Trapezius'', hs_x = 0.38, hs_y = 0.16, hs_width = 0.08, hs_height = 0.06, hs_isDetail = False\<rparr>,
     \<lparr>hs_id = 34, hs_name = ''Left Mid Trapezius/Rhomboids'', hs_x = 0.40, hs_y = 0.22, hs_width = 0.07, hs_height = 0.08, hs_isDetail = False\<rparr>]"

definition backHotspots_3 :: "Hotspot list" where
  "backHotspots_3 =
    [\<lparr>hs_id = 34, hs_name = ''Left Upper Trapezius (Superior Medial)'', hs_x = 0.42, hs_y = 0.15, hs_width = 0.04, hs_height = 0.03, hs_isDetail = False\<rparr>,
     \<lparr>hs_id = 34, hs_name = ''Left Upper Trapezius (Superior Lateral)'', hs_x = 0.37, hs_y = 0.15, hs_width = 0.04, hs_height = 0.03, hs_isDetail = False\<rparr>,
     \<lparr>hs_id = 34, hs_name = ''Left Upper Trapezius (Inferior Medial)'', hs_x = 0.42, hs_y = 0.19, hs_width = 0.04, hs_height = 0.03, hs_isDetail = False\<rparr>,
     \<lparr>hs_id = 34, hs_name = ''Left Upper Trapezius (Inferior Lateral)'', hs_x = 0.37, hs_y = 0.19, hs_width = 0.04, hs_height = 0.03, hs_isDetail = False\<rparr>,
     \<lparr>hs_id = 34, hs_name = ''Left Mid Traps (Superior Medial)'', hs_x = 0.43, hs_y = 0.21, hs_width = 0.035, hs_height = 0.04, hs_isDetail = False\<rparr>,
     \<lparr>hs_id = 34, hs_name = ''Left Mid Traps (Superior Lateral)'', hs_x = 0.39, hs_y = 0.21, hs_width = 0.035, hs_height = 0.04, hs_isDetail = False\<rparr>,
     \<lparr>hs_id = 34, hs_name = ''Left Mid Traps (Inferior Medial)'', hs_x = 0.43, hs_y = 0.26, hs_width = 0.035, hs_height = 0.04, hs_isDetail = False\<rparr>,
     \<lparr>hs_id = 34, hs_name = ''Left Mid Traps (Inferior Lateral)'', hs_x = 0.39, hs_y = 0.26, hs_width = 0.035, hs_height = 0.04, hs_isDetail = False\<rparr>,
     \<lparr>hs_id = 35, hs_name = ''Thoracic Spine (T1-T2 - Right Paraspinal)'', hs_x = 0.50, hs_y = 0.16, hs_width = 0.025, hs_height = 0.04, hs_isDetail = False\<rparr>,
     \<lparr>hs_id = 35, hs_name = ''Thoracic Spine (T3-T5 - Right Paraspinal)'', hs_x = 0.50, hs_y = 0.20, hs_width = 0.025, hs_height = 0.05, hs_isDetail = False\<rparr>,
     \<lparr>hs_id = 35, hs_name = ''Thoracic Spine (T6-T9 - Right Paraspinal)'', hs_x = 0.50, hs_y = 0.25, hs_width = 0.025, hs_height = 0.07, hs_isDetail = False\<rparr>,
     \<lparr>hs_id = 35, hs_name = ''Thoracic Spine (T10-T12 - Right Paraspinal)'', hs_x = 0.50, hs_y = 0.32, hs_width = 0.025, hs_height = 0.06, hs_isDetail = False\<rparr>,
     \<lparr>hs_id = 35, hs_name = ''Right Upper Trapezius'', hs_x = 0.54, hs_y = 0.16, hs_width = 0.08, hs_height = 0.06, hs_isDetail = False\<rparr>,
     \<lparr>hs_id = 35, hs_name = ''Right Mid Trapezius/Rhomboids'', hs_x = 0.53, hs_y = 0.22, hs_width = 0.07, hs_height = 0.08, hs_isDetail = False\<rparr>,
     \<lparr>hs_id = 35, hs_name = ''Right Upper Trapezius (Superior Medial)'', hs_x = 0.55, hs_y = 0.15, hs_width = 0.04, hs_height = 0.03, hs_isDetail = False\<rparr>,
     \<lparr>hs_id = 35, hs_name = ''Right Upper Trapezius (Superior Lateral)'', hs_x = 0.60, hs_y = 0.15, hs_width = 0.04, hs_height = 0.03, hs_isDetail = False\<rparr>,
     \<lparr>hs_id = 35, hs_name = ''Right Upper Trapezius (Inferior Medial)'', hs_x = 0.55, hs_y = 0.19, hs_width = 0.04, hs_height = 0.03, hs_isDetail = False\<rparr>,
     \<lparr>hs_id = 35, hs_name = ''Right Upper Trapezius (Inferior Lateral)'', hs_x = 0.60, hs_y = 0.19, hs_width = 0.04, hs_height = 0.03, hs_isDetail = False\<rparr>,
     \<lparr>hs_id = 35, hs_name = ''Right Mid Traps (Superior Medial)'', hs_x = 0.53, hs_y = 0.21, hs_width = 0.035, hs_height = 0.04, hs_isDetail = False\<rparr>,
     \<lparr>hs_id = 35, hs_name = ''Right Mid Traps (Superior Lateral)'', hs_x = 0.57, hs_y = 0.21, hs_width = 0.035, hs_height = 0.04, hs_isDetail = False\<rparr>,
     \<lparr>hs_id = 35, hs_name = ''Right Mid Traps (Inferior Medial)'', hs_x = 0.53, hs_y = 0.26, hs_width = 0.035, hs_height = 0.04, hs_isDetail = False\<rparr>,
     \<lparr>hs_id = 35, hs_name = ''Right Mid Traps (Inferior Lateral)'', hs_x = 0.57, hs_y = 0.26, hs_width = 0.035, hs_height = 0.04, hs_isDetail = False\<rparr>,
     \<lparr>hs_id = 36, hs_name = ''Left Latissimus Dorsi (Upper Back)'', hs_x = 0.33, hs_y = 0.28, hs_width = 0.12, hs_height = 0.1, hs_isDetail = False\<rparr>,
     \<lparr>hs_id = 36, hs_name = ''Left Lower Back (Flank - Thoracolumbar)'', hs_x = 0.35, hs_y = 0.38, hs_width = 0.1, hs_height = 0.06, hs_isDetail = False\<rparr>,
     \<lparr>hs_id = 37, hs_name = ''Right Latissimus Dorsi (Upper Back)'', hs_x = 0.55, hs_y = 0.28, hs_width = 0.12, hs_height = 0.1, hs_isDetail = False\<rparr>]"

definition backHotspots_4 :: "Hotspot list" where
  "backHotspots_4 =
    [\<lparr>hs_id = 37, hs_name = ''Right Lower Back (Flank - Thoracolumbar)'', hs_x = 0.55, hs_y = 0.38, hs_width = 0.1, hs_height = 0.06, hs_isDetail = False\<rparr>,
     \<lparr>hs_id = 38, hs_name = ''Lumbar Spine (L1-L3 - Left Paraspinal)'', hs_x = 0.475, hs_y = 0.39, hs_width = 0.025, hs_height = 0.05, hs_isDetail = False\<rparr>,
     \<lparr>hs_id = 38, hs_name = ''Lumbar Spine (L4-L5 - Left Paraspinal)'', hs_x = 0.475, hs_y = 0.44, hs_width = 0.025, hs_height = 0.04, hs_isDetail = False\<rparr>,
     \<lparr>hs_id = 38, hs_name = ''Left Lumbar Erector Spinae'', hs_x = 0.41, hs_y = 0.39, hs_width = 0.06, hs_height = 0.09, hs_isDetail = False\<rparr>,
     \<lparr>hs_id = 38, hs_name = ''L Gluteal (Superior)'', hs_x = 0.35, hs_y = 0.48, hs_width = 0.1, hs_height = 0.05, hs_isDetail = False\<rparr>,
     \<lparr>hs_id = 38, hs_name = ''L Gluteal (Mid-Lateral)'', hs_x = 0.29, hs_y = 0.51, hs_width = 0.07, hs_height = 0.07, hs_isDetail = False\<rparr>,
     \<lparr>hs_id = 38, hs_name = ''L Gluteal (Mid-Medial)'', hs_x = 0.36, hs_y = 0.53, hs_width = 0.08, hs_height = 0.06, hs_isDetail = False\<rparr>,
     \<lparr>hs_id = 38, hs_name = ''L Ischial Tuberosity Area'', hs_x = 0.38, hs_y = 0.58, hs_width = 0.06, hs_height = 0.03, hs_isDetail = False\<rparr>,
     \<lparr>hs_id = 38, hs_name = ''L UpperOuterLumbar S1'', hs_x = 0.39, hs_y = 0.37, hs_width = 0.01, hs_height = 0.01, hs_isDetail = False\<rparr>,
     \<lparr>hs_id = 38, hs_name = ''L UpperOuterLumbar S2'', hs_x = 0.40, hs_y = 0.37, hs_width = 0.01, hs_height = 0.01, hs_isDetail = False\<rparr>,
     \<lparr>hs_id = 38, hs_name = ''L UpperOuterLumbar S3'', hs_x = 0.41, hs_y = 0.37, hs_width = 0.01, hs_height = 0.01, hs_isDetail = False\<rparr>,
     \<lparr>hs_id = 38, hs_name = ''L UpperOuterLumbar S4'', hs_x = 0.42, hs_y = 0.37, hs_width = 0.01, hs_height = 0.01, hs_isDetail = False\<rparr>,
     \<lparr>hs_id = 38, hs_name = ''L UpperOuterLumbar S5'', hs_x = 0.39, hs_y = 0.38, hs_width = 0.01, hs_height = 0.01, hs_isDetail = False\<rparr>,
     \<lparr>hs_id = 38, hs_name = ''L UpperOuterLumbar S6'', hs_x = 0.40, hs_y = 0.38, hs_width = 0.01, hs_height = 0.01, hs_isDetail = False\<rparr>,
     \<lparr>hs_id = 38, hs_name = ''L UpperOuterLumbar S7'', hs_x = 0.41, hs_y = 0.38, hs_width = 0.01, hs_height = 0.01, hs_isDetail = False\<rparr>,
     \<lparr>hs_id = 38, hs_name = ''L UpperOuterLumbar S8'', hs_x = 0.42, hs_y = 0.38, hs_width = 0.01, hs_height = 0.01, hs_isDetail = False\<rparr>,
     \<lparr>hs_id = 38, hs_name = ''L UpperOuterLumbar S9'', hs_x = 0.39, hs_y = 0.39, hs_width = 0.01, hs_height = 0.01, hs_isDetail = False\<rparr>,
     \<lparr>hs_id = 38, hs_name = ''L UpperOuterLumbar S10'', hs_x = 0.40, hs_y = 0.39, hs_width = 0.01, hs_height = 0.01, hs_isDetail = False\<rparr>,
     \<lparr>hs_id = 38, hs_name = ''L UpperOuterLumbar S11'', hs_x = 0.41, hs_y = 0.39, hs_width = 0.01, hs_height = 0.01, hs_isDetail = False\<rparr>,
     \<lparr>hs_id = 38, hs_name = ''L UpperOuterLumbar S12'', hs_x = 0.42, hs_y = 0.39, hs_width = 0.01, hs_height = 0.01, hs_isDetail = False\<rparr>,
     \<lparr>hs_id = 38, hs_name = ''L UpperOuterLumbar S13'', hs_x = 0.39, hs_y = 0.40, hs_width = 0.01, hs_height = 0.01, hs_isDetail = False\<rparr>,
     \<lparr>hs_id = 38, hs_name = ''L UpperOuterLumbar S14'', hs_x = 0.40, hs_y = 0.40, hs_width = 0.01, hs_height = 0.01, hs_isDetail = False\<rparr>,
     \<lparr>hs_id = 38, hs_name = ''L UpperOuterLumbar S15'', hs_x = 0.41, hs_y = 0.40, hs_width = 0.01, hs_height = 0.01, hs_isDetail = False\<rparr>,
     \<lparr>hs_id = 38, hs_name = ''L UpperOuterLumbar S16'', hs_x = 0.42, hs_y = 0.40, hs_width = 0.01, hs_height = 0.01, hs_isDetail = False\<rparr>,
     \<lparr>hs_id = 38, hs_name = ''L UpperOuterLumbar S17'', hs_x = 0.43, hs_y = 0.385, hs_width = 0.01, hs_height = 0.01, hs_isDetail = False\<rparr>]"

definition backHotspots_5 :: "Hotspot list" where
  "backHotspots_5 =
    [\<lparr>hs_id = 38, hs_name = ''L UpperOuterLumbar S18'', hs_x = 0.43, hs_y = 0.395, hs_width = 0.01, hs_height = 0.01, hs_isDetail = False\<rparr>,
     \<lparr>hs_id = 38, hs_name = ''L UpperOuterLumbar S19'', hs_x = 0.385, hs_y = 0.38, hs_width = 0.01, hs_height = 0.01, hs_isDetail = False\<rparr>,
     \<lparr>hs_id = 38, hs_name = ''L UpperOuterLumbar S20'', hs_x = 0.385, hs_y = 0.39, hs_width = 0.01, hs_height = 0.01, hs_isDetail = False\<rparr>,
     \<lparr>hs_id = 38, hs_name = ''L Lumbar TopOuter A1'', hs_x = 0.39, hs_y = 0.375, hs_width = 0.01, hs_height = 0.01, hs_isDetail = False\<rparr>,
     \<lparr>hs_id = 38, hs_name = ''L Lumbar TopOuter A2'', hs_x = 0.40, hs_y = 0.375, hs_width = 0.01, hs_height = 0.01, hs_isDetail = False\<rparr>,
     \<lparr>hs_id = 38, hs_name = ''L Lumbar TopOuter A3'', hs_x = 0.39, hs_y = 0.385, hs_width = 0.01, hs_height = 0.01, hs_isDetail = False\<rparr>,
     \<lparr>hs_id = 38, hs_name = ''L Lumbar TopOuter A4'', hs_x = 0.40, hs_y = 0.385, hs_width = 0.01, hs_height = 0.01, hs_isDetail = False\<rparr>,
     \<lparr>hs_id = 38, hs_name = ''L Lumbar TopOuter B1'', hs_x = 0.38, hs_y = 0.39, hs_width = 0.01, hs_height = 0.01, hs_isDetail = False\<rparr>,
     \<lparr>hs_id = 38, hs_name = ''L Lumbar TopOuter B2'', hs_x = 0.39, hs_y = 0.39, hs_width = 0.01, hs_height = 0.01, hs_isDetail = False\<rparr>,
     \<lparr>hs_id = 38, hs_name = ''L Lumbar TopOuter B3'', hs_x = 0.38, hs_y = 0.40, hs_width = 0.01, hs_height = 0.01, hs_isDetail = False\<rparr>,
     \<lparr>hs_id = 38, hs_name = ''L Lumbar TopOuter B4'', hs_x = 0.39, hs_y = 0.40, hs_width = 0.01, hs_height = 0.01, hs_isDetail = False\<rparr>,
     \<lparr>hs_id = 38, hs_name = ''L Lumbar UpperLat C1'', hs_x = 0.395, hs_y = 0.405, hs_width = 0.01, hs_height = 0.01, hs_isDetail = False\<rparr>,
     \<lparr>hs_id = 38, hs_name = ''L Lumbar UpperLat C2'', hs_x = 0.405, hs_y = 0.405, hs_width = 0.01, hs_height = 0.01, hs_isDetail = False\<rparr>,
     \<lparr>hs_id = 38, hs_name = ''L Lumbar UpperLat C3'', hs_x = 0.395, hs_y = 0.415, hs_width = 0.01, hs_height = 0.01, hs_isDetail = False\<rparr>,
     \<lparr>hs_id = 38, hs_name = ''L Lumbar UpperLat C4'', hs_x = 0.405, hs_y = 0.415, hs_width = 0.01, hs_height = 0.01, hs_isDetail = False\<rparr>,
     \<lparr>hs_id = 38, hs_name = ''L Lumbar ES (SupLat 1)'', hs_x = 0.40, hs_y = 0.38, hs_width = 0.015, hs_height = 0.015, hs_isDetail = False\<rparr>,
     \<lparr>hs_id = 38, hs_name = ''L Lumbar ES (SupLat 2)'', hs_x = 0.415, hs_y = 0.38, hs_width = 0.015, hs_height = 0.015, hs_isDetail = False\<rparr>,
     \<lparr>hs_id = 38, hs_name = ''L Lumbar ES (SupLat 3)'', hs_x = 0.40, hs_y = 0.395, hs_width = 0.015, hs_height = 0.015, hs_isDetail = False\<rparr>,
     \<lparr>hs_id = 38, hs_name = ''L Lumbar ES (SupMid 1)'', hs_x = 0.43, hs_y = 0.38, hs_width = 0.015, hs_height = 0.015, hs_isDetail = False\<rparr>,
     \<lparr>hs_id = 38, hs_name = ''L Lumbar ES (SupMid 2)'', hs_x = 0.445, hs_y = 0.38, hs_width = 0.015, hs_height = 0.015, hs_isDetail = False\<rparr>,
     \<lparr>hs_id = 38, hs_name = ''L Lumbar ES (SupMid 3)'', hs_x = 0.43, hs_y = 0.395, hs_width = 0.015, hs_height = 0.015, hs_isDetail = False\<rparr>,
     \<lparr>hs_id = 38, hs_name = ''L Lumbar ES (MidLat 1)'', hs_x = 0.40, hs_y = 0.41, hs_width = 0.015, hs_height = 0.015, hs_isDetail = False\<rparr>,
     \<lparr>hs_id = 38, hs_name = ''L Lumbar ES (MidLat 2)'', hs_x = 0.415, hs_y = 0.41, hs_width = 0.015, hs_height = 0.015, hs_isDetail = False\<rparr>,
     \<lparr>hs_id = 38, hs_name = ''L Lumbar ES (MidLat 3)'', hs_x = 0.40, hs_y = 0.425, hs_width = 0.015, hs_height = 0.015, hs_isDetail = False\<rparr>,
     \<lparr>hs_id = 38, hs_name = ''L Lumbar Para (Sup 1)'', hs_x = 0.45, hs_y = 0.38, hs_width = 0.012, hs_height = 0.01, hs_isDetail = False\<rparr>]"

definition backHotspots_6 :: "Hotspot list" where
  "backHotspots_6 =
    [\<lparr>hs_id = 38, hs_name = ''L Lumbar Para (Sup 2)'', hs_x = 0.462, hs_y = 0.38, hs_width = 0.013, hs_height = 0.01, hs_isDetail = False\<rparr>,
     \<lparr>hs_id = 38, hs_name = ''L Lumbar Para (Sup 3)'', hs_x = 0.45, hs_y = 0.39, hs_width = 0.012, hs_height = 0.01, hs_isDetail = False\<rparr>,
     \<lparr>hs_id = 38, hs_name = ''L Lumbar Para (Mid 1)'', hs_x = 0.45, hs_y = 0.40, hs_width = 0.012, hs_height = 0.01, hs_isDetail = False\<rparr>,
     \<lparr>hs_id = 38, hs_name = ''L Lumbar Para (Mid 2)'', hs_x = 0.462, hs_y = 0.40, hs_width = 0.013, hs_height = 0.01, hs_isDetail = False\<rparr>,
     \<lparr>hs_id = 38, hs_name = ''L Lumbar Para (Mid 3)'', hs_x = 0.45, hs_y = 0.41, hs_width = 0.012, hs_height = 0.01, hs_isDetail = False\<rparr>,
     \<lparr>hs_id = 38, hs_name = ''L Lumbar (TL 1a)'', hs_x = 0.40, hs_y = 0.37, hs_width = 0.01, hs_height = 0.01, hs_isDetail = False\<rparr>,
     \<lparr>hs_id = 38, hs_name = ''L Lumbar (TL 1b)'', hs_x = 0.41, hs_y = 0.37, hs_width = 0.01, hs_height = 0.01, hs_isDetail = False\<rparr>,
     \<lparr>hs_id = 38, hs_name = ''L Lumbar (TL 2a)'', hs_x = 0.42, hs_y = 0.37, hs_width = 0.01, hs_height = 0.01, hs_isDetail = False\<rparr>,
     \<lparr>hs_id = 38, hs_name = ''L Lumbar (TL 2b)'', hs_x = 0.43, hs_y = 0.37, hs_width = 0.01, hs_height = 0.01, hs_isDetail = False\<rparr>,
     \<lparr>hs_id = 38, hs_name = ''L Lumbar (TL 3a)'', hs_x = 0.40, hs_y = 0.38, hs_width = 0.01, hs_height = 0.01, hs_isDetail = False\<rparr>,
     \<lparr>hs_id = 38, hs_name = ''L Lumbar (TL 3b)'', hs_x = 0.41, hs_y = 0.38, hs_width = 0.01, hs_height = 0.01, hs_isDetail = False\<rparr>,
     \<lparr>hs_id = 38, hs_name = ''L Lumbar (TC 1a)'', hs_x = 0.44, hs_y = 0.37, hs_width = 0.01, hs_height = 0.01, hs_isDetail = False\<rparr>,
     \<lparr>hs_id = 38, hs_name = ''L Lumbar (TC 1b)'', hs_x = 0.45, hs_y = 0.37, hs_width = 0.01, hs_height = 0.01, hs_isDetail = False\<rparr>,
     \<lparr>hs_id = 38, hs_name = ''L Lumbar (TC 2a)'', hs_x = 0.46, hs_y = 0.37, hs_width = 0.01, hs_height = 0.01, hs_isDetail = False\<rparr>,
     \<lparr>hs_id = 38, hs_name = ''L Lumbar (TC 2b)'', hs_x = 0.47, hs_y = 0.37, hs_width = 0.01, hs_height = 0.01, hs_isDetail = False\<rparr>,
     \<lparr>hs_id = 38, hs_name = ''L Glute SupLat (A1)'', hs_x = 0.30, hs_y = 0.47, hs_width = 0.02, hs_height = 0.015, hs_isDetail = False\<rparr>,
     \<lparr>hs_id = 38, hs_name = ''L Glute SupLat (A2)'', hs_x = 0.32, hs_y = 0.47, hs_width = 0.02, hs_height = 0.015, hs_isDetail = False\<rparr>,
     \<lparr>hs_id = 38, hs_name = ''L Glute SupLat (B1)'', hs_x = 0.33, hs_y = 0.475, hs_width = 0.02, hs_height = 0.015, hs_isDetail = False\<rparr>,
     \<lparr>hs_id = 38, hs_name = ''L Glute SupLat (B2)'', hs_x = 0.35, hs_y = 0.475, hs_width = 0.02, hs_height = 0.015, hs_isDetail = False\<rparr>,
     \<lparr>hs_id = 38, hs_name = ''L Glute SupMidLat (1)'', hs_x = 0.29, hs_y = 0.49, hs_width = 0.025, hs_height = 0.015, hs_isDetail = False\<rparr>,
     \<lparr>hs_id = 38, hs_name = ''L Glute SupMidLat (2)'', hs_x = 0.315, hs_y = 0.49, hs_width = 0.025, hs_height = 0.015, hs_isDetail = False\<rparr>,
     \<lparr>hs_id = 38, hs_name = ''L Glute UpOut (1)'', hs_x = 0.28, hs_y = 0.48, hs_width = 0.02, hs_height = 0.015, hs_isDetail = False\<rparr>,
     \<lparr>hs_id = 38, hs_name = ''L Glute UpOut (2)'', hs_x = 0.30, hs_y = 0.48, hs_width = 0.02, hs_height = 0.015, hs_isDetail = False\<rparr>,
     \<lparr>hs_id = 38, hs_name = ''L Glute TL (1a)'', hs_x = 0.28, hs_y = 0.47, hs_width = 0.01, hs_height = 0.01, hs_isDetail = False\<rparr>,
     \<lparr>hs_id = 38, hs_name = ''L Glute TL (1b)'', hs_x = 0.29, hs_y = 0.47, hs_width = 0.01, hs_height = 0.01, hs_isDetail = False\<rparr>]"

definition backHotspots_7 :: "Hotspot list" where
  "backHotspots_7 =
    [\<lparr>hs_id = 38, hs_name = ''L Glute TL (2a)'', hs_x = 0.30, hs_y = 0.46, hs_width = 0.01, hs_height = 0.01, hs_isDetail = False\<rparr>,
     \<lparr>hs_id = 38, hs_name = ''L Glute TL (2b)'', hs_x = 0.31, hs_y = 0.46, hs_width = 0.01, hs_height = 0.01, hs_isDetail = False\<rparr>,
     \<lparr>hs_id = 38, hs_name = ''L Glute TL (3a)'', hs_x = 0.32, hs_y = 0.47, hs_width = 0.01, hs_height = 0.01, hs_isDetail = False\<rparr>,
     \<lparr>hs_id = 38, hs_name = ''L Glute TL (3b)'', hs_x = 0.33, hs_y = 0.47, hs_width = 0.01, hs_height = 0.01, hs_isDetail = False\<rparr>,
     \<lparr>hs_id = 38, hs_name = ''L Glute TL (4a)'', hs_x = 0.34, hs_y = 0.46, hs_width = 0.01, hs_height = 0.01, hs_isDetail = False\<rparr>,
     \<lparr>hs_id = 38, hs_name = ''L Glute TL (4b)'', hs_x = 0.35, hs_y = 0.46, hs_width = 0.01, hs_height = 0.01, hs_isDetail = False\<rparr>,
     \<lparr>hs_id = 38, hs_name = ''L Glute TL (5a)'', hs_x = 0.31, hs_y = 0.485, hs_width = 0.01, hs_height = 0.01, hs_isDetail = False\<rparr>,
     \<lparr>hs_id = 38, hs_name = ''L Glute TL (5b)'', hs_x = 0.32, hs_y = 0.485, hs_width = 0.01, hs_height = 0.01, hs_isDetail = False\<rparr>,
     \<lparr>hs_id = 38, hs_name = ''L Glute TL (6a)'', hs_x = 0.33, hs_y = 0.495, hs_width = 0.01, hs_height = 0.01, hs_isDetail = False\<rparr>,
     \<lparr>hs_id = 38, hs_name = ''L Glute TL (6b)'', hs_x = 0.34, hs_y = 0.495, hs_width = 0.01, hs_height = 0.01, hs_isDetail = False\<rparr>,
     \<lparr>hs_id = 38, hs_name = ''L Glute (Superior Medial 1)'', hs_x = 0.36, hs_y = 0.48, hs_width = 0.02, hs_height = 0.015, hs_isDetail = False\<rparr>,
     \<lparr>hs_id = 38, hs_name = ''L Glute (Superior Medial 2)'', hs_x = 0.38, hs_y = 0.48, hs_width = 0.02, hs_height = 0.015, hs_isDetail = False\<rparr>,
     \<lparr>hs_id = 38, hs_name = ''L Glute (Superior Medial 3)'', hs_x = 0.37, hs_y = 0.49, hs_width = 0.02, hs_height = 0.015, hs_isDetail = False\<rparr>,
     \<lparr>hs_id = 38, hs_name = ''L UpperLateralThigh S1'', hs_x = 0.28, hs_y = 0.50, hs_width = 0.01, hs_height = 0.02, hs_isDetail = False\<rparr>,
     \<lparr>hs_id = 38, hs_name = ''L UpperLateralThigh S2'', hs_x = 0.29, hs_y = 0.50, hs_width = 0.01, hs_height = 0.02, hs_isDetail = False\<rparr>,
     \<lparr>hs_id = 38, hs_name = ''L UpperLateralThigh S3'', hs_x = 0.30, hs_y = 0.50, hs_width = 0.01, hs_height = 0.02, hs_isDetail = False\<rparr>,
     \<lparr>hs_id = 38, hs_name = ''L UpperLateralThigh S4'', hs_x = 0.28, hs_y = 0.52, hs_width = 0.01, hs_height = 0.02, hs_isDetail = False\<rparr>,
     \<lparr>hs_id = 38, hs_name = ''L UpperLateralThigh S5'', hs_x = 0.29, hs_y = 0.52, hs_width = 0.01, hs_height = 0.02, hs_isDetail = False\<rparr>,
     \<lparr>hs_id = 38, hs_name = ''L UpperLateralThigh S6'', hs_x = 0.30, hs_y = 0.52, hs_width = 0.01, hs_height = 0.02, hs_isDetail = False\<rparr>,
     \<lparr>hs_id = 38, hs_name = ''L UpperLateralThigh S7'', hs_x = 0.28, hs_y = 0.54, hs_width = 0.01, hs_height = 0.02, hs_isDetail = False\<rparr>,
     \<lparr>hs_id = 38, hs_name = ''L UpperLateralThigh S8'', hs_x = 0.29, hs_y = 0.54, hs_width = 0.01, hs_height = 0.02, hs_isDetail = False\<rparr>,
     \<lparr>hs_id = 38, hs_name = ''L UpperLateralThigh S9'', hs_x = 0.30, hs_y = 0.54, hs_width = 0.01, hs_height = 0.02, hs_isDetail = False\<rparr>,
     \<lparr>hs_id = 38, hs_name = ''L UpperLateralThigh S10'', hs_x = 0.28, hs_y = 0.56, hs_width = 0.01, hs_height = 0.02, hs_isDetail = False\<rparr>,
     \<lparr>hs_id = 38, hs_name = ''L UpperLateralThigh S11'', hs_x = 0.29, hs_y = 0.56, hs_width = 0.01, hs_height = 0.02, hs_isDetail = False\<rparr>,
     \<lparr>hs_id = 38, hs_name = ''L UpperLateralThigh S12'', hs_x = 0.30, hs_y = 0.56, hs_width = 0.01, hs_height = 0.02, hs_isDetail = False\<rparr>]"

definition backHotspots_8 :: "Hotspot list" where
  "backHotspots_8 =
    [\<lparr>hs_id = 38, hs_name = ''L UpperLateralThigh S13'', hs_x = 0.28, hs_y = 0.58, hs_width = 0.01, hs_height = 0.02, hs_isDetail = False\<rparr>,
     \<lparr>hs_id = 38, hs_name = ''L UpperLateralThigh S14'', hs_x = 0.29, hs_y = 0.58, hs_width = 0.01, hs_height = 0.02, hs_isDetail = False\<rparr>,
     \<lparr>hs_id = 38, hs_name = ''L UpperLateralThigh S15'', hs_x = 0.30, hs_y = 0.58, hs_width = 0.01, hs_height = 0.02, hs_isDetail = False\<rparr>,
     \<lparr>hs_id = 38, hs_name = ''Left Posterior Superior Iliac Spine (PSIS)'', hs_x = 0.42, hs_y = 0.47, hs_width = 0.04, hs_height = 0.03, hs_isDetail = False\<rparr>,
     \<lparr>hs_id = 38, hs_name = ''L Sacrum TopOuter A1'', hs_x = 0.40, hs_y = 0.455, hs_width = 0.01, hs_height = 0.01, hs_isDetail = False\<rparr>,
     \<lparr>hs_id = 38, hs_name = ''L Sacrum TopOuter A2'', hs_x = 0.41, hs_y = 0.455, hs_width = 0.01, hs_height = 0.01, hs_isDetail = False\<rparr>,
     \<lparr>hs_id = 38, hs_name = ''L Sacrum TopOuter A3'', hs_x = 0.40, hs_y = 0.465, hs_width = 0.01, hs_height = 0.01, hs_isDetail = False\<rparr>,
     \<lparr>hs_id = 38, hs_name = ''L Sacrum TopOuter A4'', hs_x = 0.41, hs_y = 0.465, hs_width = 0.01, hs_height = 0.01, hs_isDetail = False\<rparr>,
     \<lparr>hs_id = 38, hs_name = ''L Sacrum UpperLat B1'', hs_x = 0.415, hs_y = 0.47, hs_width = 0.01, hs_height = 0.01, hs_isDetail = False\<rparr>,
     \<lparr>hs_id = 38, hs_name = ''L Sacrum UpperLat B2'', hs_x = 0.425, hs_y = 0.47, hs_width = 0.01, hs_height = 0.01, hs_isDetail = False\<rparr>,
     \<lparr>hs_id = 38, hs_name = ''L Sacrum UpperLat B3'', hs_x = 0.415, hs_y = 0.48, hs_width = 0.01, hs_height = 0.01, hs_isDetail = False\<rparr>,
     \<lparr>hs_id = 38, hs_name = ''L Sacrum UpperLat B4'', hs_x = 0.425, hs_y = 0.48, hs_width = 0.01, hs_height = 0.01, hs_isDetail = False\<rparr>,
     \<lparr>hs_id = 38, hs_name = ''L PSIS (Sup 1)'', hs_x = 0.42, hs_y = 0.46, hs_width = 0.02, hs_height = 0.01, hs_isDetail = False\<rparr>,
     \<lparr>hs_id = 38, hs_name = ''L PSIS (Sup 2)'', hs_x = 0.44, hs_y = 0.46, hs_width = 0.02, hs_height = 0.01, hs_isDetail = False\<rparr>,
     \<lparr>hs_id = 38, hs_name = ''L PSIS (Lat 1)'', hs_x = 0.40, hs_y = 0.47, hs_width = 0.01, hs_height = 0.015, hs_isDetail = False\<rparr>,
     \<lparr>hs_id = 38, hs_name = ''L PSIS (Lat 2)'', hs_x = 0.41, hs_y = 0.47, hs_width = 0.01, hs_height = 0.015, hs_isDetail = False\<rparr>,
     \<lparr>hs_id = 38, hs_name = ''L SI Area (Sup 1)'', hs_x = 0.44, hs_y = 0.465, hs_width = 0.015, hs_height = 0.012, hs_isDetail = False\<rparr>,
     \<lparr>hs_id = 38, hs_name = ''L SI Area (Sup 2)'', hs_x = 0.455, hs_y = 0.465, hs_width = 0.015, hs_height = 0.013, hs_isDetail = False\<rparr>,
     \<lparr>hs_id = 38, hs_name = ''L Sacral Ala (Sup 1)'', hs_x = 0.45, hs_y = 0.475, hs_width = 0.012, hs_height = 0.01, hs_isDetail = False\<rparr>,
     \<lparr>hs_id = 38, hs_name = ''L Sacral Ala (Sup 2)'', hs_x = 0.462, hs_y = 0.475, hs_width = 0.013, hs_height = 0.01, hs_isDetail = False\<rparr>,
     \<lparr>hs_id = 38, hs_name = ''L Sacrum (TL 1a)'', hs_x = 0.41, hs_y = 0.46, hs_width = 0.01, hs_height = 0.01, hs_isDetail = False\<rparr>,
     \<lparr>hs_id = 38, hs_name = ''L Sacrum (TL 1b)'', hs_x = 0.42, hs_y = 0.46, hs_width = 0.01, hs_height = 0.01, hs_isDetail = False\<rparr>,
     \<lparr>hs_id = 38, hs_name = ''L Sacrum (TL 2a)'', hs_x = 0.43, hs_y = 0.46, hs_width = 0.01, hs_height = 0.01, hs_isDetail = False\<rparr>,
     \<lparr>hs_id = 38, hs_name = ''L Sacrum (TL 2b)'', hs_x = 0.44, hs_y = 0.46, hs_width = 0.01, hs_height = 0.01, hs_isDetail = False\<rparr>,
     \<lparr>hs_id = 38, hs_name = ''L Sacrum (TL 3a)'', hs_x = 0.41, hs_y = 0.47, hs_width = 0.01, hs_height = 0.01, hs_isDetail = False\<rparr>]"

definition backHotspots_9 :: "Hotspot list" where
  "backHotspots_9 =
    [\<lparr>hs_id = 38, hs_name = ''L Sacrum (TL 3b)'', hs_x = 0.42, hs_y = 0.47, hs_width = 0.01, hs_height = 0.01, hs_isDetail = False\<rparr>,
     \<lparr>hs_id = 38, hs_name = ''L Sacrum (TL 4a)'', hs_x = 0.41, hs_y = 0.48, hs_width = 0.01, hs_height = 0.01, hs_isDetail = False\<rparr>,
     \<lparr>hs_id = 38, hs_name = ''L Sacrum (TL 4b)'', hs_x = 0.42, hs_y = 0.48, hs_width = 0.01, hs_height = 0.01, hs_isDetail = False\<rparr>,
     \<lparr>hs_id = 39, hs_name = ''Lumbar Spine (L1-L3 - Right Paraspinal)'', hs_x = 0.50, hs_y = 0.39, hs_width = 0.025, hs_height = 0.05, hs_isDetail = False\<rparr>,
     \<lparr>hs_id = 39, hs_name = ''Lumbar Spine (L4-L5 - Right Paraspinal)'', hs_x = 0.50, hs_y = 0.44, hs_width = 0.025, hs_height = 0.04, hs_isDetail = False\<rparr>,
     \<lparr>hs_id = 39, hs_name = ''Right Lumbar Erector Spinae'', hs_x = 0.53, hs_y = 0.39, hs_width = 0.06, hs_height = 0.09, hs_isDetail = False\<rparr>,
     \<lparr>hs_id = 39, hs_name = ''Right Gluteal (Superior)'', hs_x = 0.55, hs_y = 0.48, hs_width = 0.1, hs_height = 0.05, hs_isDetail = False\<rparr>,
     \<lparr>hs_id = 39, hs_name = ''R Gluteal (Mid-Lateral)'', hs_x = 0.64, hs_y = 0.51, hs_width = 0.07, hs_height = 0.07, hs_isDetail = False\<rparr>,
     \<lparr>hs_id = 39, hs_name = ''R Gluteal (Mid-Medial)'', hs_x = 0.56, hs_y = 0.53, hs_width = 0.08, hs_height = 0.06, hs_isDetail = False\<rparr>,
     \<lparr>hs_id = 39, hs_name = ''R Ischial Tuberosity Area'', hs_x = 0.56, hs_y = 0.58, hs_width = 0.06, hs_height = 0.03, hs_isDetail = False\<rparr>,
     \<lparr>hs_id = 39, hs_name = ''R UpperOuterLumbar S1'', hs_x = 0.57, hs_y = 0.37, hs_width = 0.01, hs_height = 0.01, hs_isDetail = False\<rparr>,
     \<lparr>hs_id = 39, hs_name = ''R UpperOuterLumbar S2'', hs_x = 0.58, hs_y = 0.37, hs_width = 0.01, hs_height = 0.01, hs_isDetail = False\<rparr>,
     \<lparr>hs_id = 39, hs_name = ''R UpperOuterLumbar S3'', hs_x = 0.59, hs_y = 0.37, hs_width = 0.01, hs_height = 0.01, hs_isDetail = False\<rparr>,
     \<lparr>hs_id = 39, hs_name = ''R UpperOuterLumbar S4'', hs_x = 0.60, hs_y = 0.37, hs_width = 0.01, hs_height = 0.01, hs_isDetail = False\<rparr>,
     \<lparr>hs_id = 39, hs_name = ''R UpperOuterLumbar S5'', hs_x = 0.57, hs_y = 0.38, hs_width = 0.01, hs_height = 0.01, hs_isDetail = False\<rparr>,
     \<lparr>hs_id = 39, hs_name = ''R UpperOuterLumbar S6'', hs_x = 0.58, hs_y = 0.38, hs_width = 0.01, hs_height = 0.01, hs_isDetail = False\<rparr>,
     \<lparr>hs_id = 39, hs_name = ''R UpperOuterLumbar S7'', hs_x = 0.59, hs_y = 0.38, hs_width = 0.01, hs_height = 0.01, hs_isDetail = False\<rparr>,
     \<lparr>hs_id = 39, hs_name = ''R UpperOuterLumbar S8'', hs_x = 0.60, hs_y = 0.38, hs_width = 0.01, hs_height = 0.01, hs_isDetail = False\<rparr>,
     \<lparr>hs_id = 39, hs_name = ''R UpperOuterLumbar S9'', hs_x = 0.57, hs_y = 0.39, hs_width = 0.01, hs_height = 0.01, hs_isDetail = False\<rparr>,
     \<lparr>hs_id = 39, hs_name = ''R UpperOuterLumbar S10'', hs_x = 0.58, hs_y = 0.39, hs_width = 0.01, hs_height = 0.01, hs_isDetail = False\<rparr>,
     \<lparr>hs_id = 39, hs_name = ''R UpperOuterLumbar S11'', hs_x = 0.59, hs_y = 0.39, hs_width = 0.01, hs_height = 0.01, hs_isDetail = False\<rparr>,
     \<lparr>hs_id = 39, hs_name = ''R UpperOuterLumbar S12'', hs_x = 0.60, hs_y = 0.39, hs_width = 0.01, hs_height = 0.01, hs_isDetail = False\<rparr>,
     \<lparr>hs_id = 39, hs_name = ''R UpperOuterLumbar S13'', hs_x = 0.57, hs_y = 0.40, hs_width = 0.01, hs_height = 0.01, hs_isDetail = False\<rparr>,
     \<lparr>hs_id = 39, hs_name = ''R UpperOuterLumbar S14'', hs_x = 0.58, hs_y = 0.40, hs_width = 0.01, hs_height = 0.01, hs_isDetail = False\<rparr>,
     \<lparr>hs_id = 39, hs_name = ''R UpperOuterLumbar S15'', hs_x = 0.59, hs_y = 0.40, hs_width = 0.01, hs_height = 0.01, hs_isDetail = False\<rparr>]"

definition backHotspots_10 :: "Hotspot list" where
  "backHotspots_10 =
    [\<lparr>hs_id = 39, hs_name = ''R UpperOuterLumbar S16'', hs_x = 0.60, hs_y = 0.40, hs_width = 0.01, hs_height = 0.01, hs_isDetail = False\<rparr>,
     \<lparr>hs_id = 39, hs_name = ''R UpperOuterLumbar S17'', hs_x = 0.565, hs_y = 0.385, hs_width = 0.01, hs_height = 0.01, hs_isDetail = False\<rparr>,
     \<lparr>hs_id = 39, hs_name = ''R UpperOuterLumbar S18'', hs_x = 0.565, hs_y = 0.395, hs_width = 0.01, hs_height = 0.01, hs_isDetail = False\<rparr>,
     \<lparr>hs_id = 39, hs_name = ''R UpperOuterLumbar S19'', hs_x = 0.605, hs_y = 0.38, hs_width = 0.01, hs_height = 0.01, hs_isDetail = False\<rparr>,
     \<lparr>hs_id = 39, hs_name = ''R UpperOuterLumbar S20'', hs_x = 0.605, hs_y = 0.39, hs_width = 0.01, hs_height = 0.01, hs_isDetail = False\<rparr>,
     \<lparr>hs_id = 39, hs_name = ''R Lumbar TopOuter A1'', hs_x = 0.59, hs_y = 0.375, hs_width = 0.01, hs_height = 0.01, hs_isDetail = False\<rparr>,
     \<lparr>hs_id = 39, hs_name = ''R Lumbar TopOuter A2'', hs_x = 0.58, hs_y = 0.375, hs_width = 0.01, hs_height = 0.01, hs_isDetail = False\<rparr>,
     \<lparr>hs_id = 39, hs_name = ''R Lumbar TopOuter A3'', hs_x = 0.59, hs_y = 0.385, hs_width = 0.01, hs_height = 0.01, hs_isDetail = False\<rparr>,
     \<lparr>hs_id = 39, hs_name = ''R Lumbar TopOuter A4'', hs_x = 0.58, hs_y = 0.385, hs_width = 0.01, hs_height = 0.01, hs_isDetail = False\<rparr>,
     \<lparr>hs_id = 39, hs_name = ''R Lumbar TopOuter B1'', hs_x = 0.60, hs_y = 0.39, hs_width = 0.01, hs_height = 0.01, hs_isDetail = False\<rparr>,
     \<lparr>hs_id = 39, hs_name = ''R Lumbar TopOuter B2'', hs_x = 0.59, hs_y = 0.39, hs_width = 0.01, hs_height = 0.01, hs_isDetail = False\<rparr>,
     \<lparr>hs_id = 39, hs_name = ''R Lumbar TopOuter B3'', hs_x = 0.60, hs_y = 0.40, hs_width = 0.01, hs_height = 0.01, hs_isDetail = False\<rparr>,
     \<lparr>hs_id = 39, hs_name = ''R Lumbar TopOuter B4'', hs_x = 0.59, hs_y = 0.40, hs_width = 0.01, hs_height = 0.01, hs_isDetail = False\<rparr>,
     \<lparr>hs_id = 39, hs_name = ''R Lumbar UpperLat C1'', hs_x = 0.585, hs_y = 0.405, hs_width = 0.01, hs_height = 0.01, hs_isDetail = False\<rparr>,
     \<lparr>hs_id = 39, hs_name = ''R Lumbar UpperLat C2'', hs_x = 0.575, hs_y = 0.405, hs_width = 0.01, hs_height = 0.01, hs_isDetail = False\<rparr>,
     \<lparr>hs_id = 39, hs_name = ''R Lumbar UpperLat C3'', hs_x = 0.585, hs_y = 0.415, hs_width = 0.01, hs_height = 0.01, hs_isDetail = False\<rparr>,
     \<lparr>hs_id = 39, hs_name = ''R Lumbar UpperLat C4'', hs_x = 0.575, hs_y = 0.415, hs_width = 0.01, hs_height = 0.01, hs_isDetail = False\<rparr>,
     \<lparr>hs_id = 39, hs_name = ''R Lumbar ES (SupLat 1)'', hs_x = 0.52, hs_y = 0.38, hs_width = 0.015, hs_height = 0.015, hs_isDetail = False\<rparr>,
     \<lparr>hs_id = 39, hs_name = ''R Lumbar ES (SupLat 2)'', hs_x = 0.535, hs_y = 0.38, hs_width = 0.015, hs_height = 0.015, hs_isDetail = False\<rparr>,
     \<lparr>hs_id = 39, hs_name = ''R Lumbar ES (SupLat 3)'', hs_x = 0.52, hs_y = 0.395, hs_width = 0.015, hs_height = 0.015, hs_isDetail = False\<rparr>,
     \<lparr>hs_id = 39, hs_name = ''R Lumbar ES (SupMid 1)'', hs_x = 0.55, hs_y = 0.38, hs_width = 0.015, hs_height = 0.015, hs_isDetail = False\<rparr>,
     \<lparr>hs_id = 39, hs_name = ''R Lumbar ES (SupMid 2)'', hs_x = 0.565, hs_y = 0.38, hs_width = 0.015, hs_height = 0.015, hs_isDetail = False\<rparr>,
     \<lparr>hs_id = 39, hs_name = ''R Lumbar ES (SupMid 3)'', hs_x = 0.55, hs_y = 0.395, hs_width = 0.015, hs_height = 0.015, hs_isDetail = False\<rparr>,
     \<lparr>hs_id = 39, hs_name = ''R Lumbar ES (MidLat 1)'', hs_x = 0.52, hs_y = 0.41, hs_width = 0.015, hs_height = 0.015, hs_isDetail = False\<rparr>,
     \<lparr>hs_id = 39, hs_name = ''R Lumbar ES (MidLat 2)'', hs_x = 0.535, hs_y = 0.41, hs_width = 0.015, hs_height = 0.015, hs_isDetail = False\<rparr>]"

definition backHotspots_11 :: "Hotspot list" where
  "backHotspots_11 =
    [\<lparr>hs_id = 39, hs_name = ''R Lumbar ES (MidLat 3)'', hs_x = 0.52, hs_y = 0.425, hs_width = 0.015, hs_height = 0.015, hs_isDetail = False\<rparr>,
     \<lparr>hs_id = 39, hs_name = ''R Lumbar Para (Sup 1)'', hs_x = 0.50, hs_y = 0.38, hs_width = 0.012, hs_height = 0.01, hs_isDetail = False\<rparr>,
     \<lparr>hs_id = 39, hs_name = ''R Lumbar Para (Sup 2)'', hs_x = 0.512, hs_y = 0.38, hs_width = 0.013, hs_height = 0.01, hs_isDetail = False\<rparr>,
     \<lparr>hs_id = 39, hs_name = ''R Lumbar Para (Sup 3)'', hs_x = 0.50, hs_y = 0.39, hs_width = 0.012, hs_height = 0.01, hs_isDetail = False\<rparr>,
     \<lparr>hs_id = 39, hs_name = ''R Lumbar Para (Mid 1)'', hs_x = 0.50, hs_y = 0.40, hs_width = 0.012, hs_height = 0.01, hs_isDetail = False\<rparr>,
     \<lparr>hs_id = 39, hs_name = ''R Lumbar Para (Mid 2)'', hs_x = 0.512, hs_y = 0.40, hs_width = 0.013, hs_height = 0.01, hs_isDetail = False\<rparr>,
     \<lparr>hs_id = 39, hs_name = ''R Lumbar Para (Mid 3)'', hs_x = 0.50, hs_y = 0.41, hs_width = 0.012, hs_height = 0.01, hs_isDetail = False\<rparr>,
     \<lparr>hs_id = 39, hs_name = ''R Lumbar (TR 1a)'', hs_x = 0.57, hs_y = 0.37, hs_width = 0.01, hs_height = 0.01, hs_isDetail = False\<rparr>,
     \<lparr>hs_id = 39, hs_name = ''R Lumbar (TR 1b)'', hs_x = 0.58, hs_y = 0.37, hs_width = 0.01, hs_height = 0.01, hs_isDetail = False\<rparr>,
     \<lparr>hs_id = 39, hs_name = ''R Lumbar (TR 2a)'', hs_x = 0.55, hs_y = 0.37, hs_width = 0.01, hs_height = 0.01, hs_isDetail = False\<rparr>,
     \<lparr>hs_id = 39, hs_name = ''R Lumbar (TR 2b)'', hs_x = 0.56, hs_y = 0.37, hs_width = 0.01, hs_height = 0.01, hs_isDetail = False\<rparr>,
     \<lparr>hs_id = 39, hs_name = ''R Lumbar (TR 3a)'', hs_x = 0.57, hs_y = 0.38, hs_width = 0.01, hs_height = 0.01, hs_isDetail = False\<rparr>,
     \<lparr>hs_id = 39, hs_name = ''R Lumbar (TR 3b)'', hs_x = 0.58, hs_y = 0.38, hs_width = 0.01, hs_height = 0.01, hs_isDetail = False\<rparr>,
     \<lparr>hs_id = 39, hs_name = ''R Glute SupLat (A1)'', hs_x = 0.66, hs_y = 0.47, hs_width = 0.02, hs_height = 0.015, hs_isDetail = False\<rparr>,
     \<lparr>hs_id = 39, hs_name = ''R Glute SupLat (A2)'', hs_x = 0.64, hs_y = 0.47, hs_width = 0.02, hs_height = 0.015, hs_isDetail = False\<rparr>,
     \<lparr>hs_id = 39, hs_name = ''R Glute SupLat (B1)'', hs_x = 0.63, hs_y = 0.475, hs_width = 0.02, hs_height = 0.015, hs_isDetail = False\<rparr>,
     \<lparr>hs_id = 39, hs_name = ''R Glute SupLat (B2)'', hs_x = 0.61, hs_y = 0.475, hs_width = 0.02, hs_height = 0.015, hs_isDetail = False\<rparr>,
     \<lparr>hs_id = 39, hs_name = ''R Glute SupMidLat (1)'', hs_x = 0.66, hs_y = 0.49, hs_width = 0.025, hs_height = 0.015, hs_isDetail = False\<rparr>,
     \<lparr>hs_id = 39, hs_name = ''R Glute SupMidLat (2)'', hs_x = 0.635, hs_y = 0.49, hs_width = 0.025, hs_height = 0.015, hs_isDetail = False\<rparr>,
     \<lparr>hs_id = 39, hs_name = ''R Glute UpOut (1)'', hs_x = 0.68, hs_y = 0.48, hs_width = 0.02, hs_height = 0.015, hs_isDetail = False\<rparr>,
     \<lparr>hs_id = 39, hs_name = ''R Glute UpOut (2)'', hs_x = 0.66, hs_y = 0.48, hs_width = 0.02, hs_height = 0.015, hs_isDetail = False\<rparr>,
     \<lparr>hs_id = 39, hs_name = ''R Glute TR (1a)'', hs_x = 0.68, hs_y = 0.47, hs_width = 0.01, hs_height = 0.01, hs_isDetail = False\<rparr>,
     \<lparr>hs_id = 39, hs_name = ''R Glute TR (1b)'', hs_x = 0.67, hs_y = 0.47, hs_width = 0.01, hs_height = 0.01, hs_isDetail = False\<rparr>,
     \<lparr>hs_id = 39, hs_name = ''R Glute TR (2a)'', hs_x = 0.66, hs_y = 0.46, hs_width = 0.01, hs_height = 0.01, hs_isDetail = False\<rparr>,
     \<lparr>hs_id = 39, hs_name = ''R Glute TR (2b)'', hs_x = 0.65, hs_y = 0.46, hs_width = 0.01, hs_height = 0.01, hs_isDetail = False\<rparr>]"

definition backHotspots_12 :: "Hotspot list" where
  "backHotspots_12 =
    [\<lparr>hs_id = 39, hs_name = ''R Glute TR (3a)'', hs_x = 0.64, hs_y = 0.47, hs_width = 0.01, hs_height = 0.01, hs_isDetail = False\<rparr>,
     \<lparr>hs_id = 39, hs_name = ''R Glute TR (3b)'', hs_x = 0.63, hs_y = 0.47, hs_width = 0.01, hs_height = 0.01, hs_isDetail = False\<rparr>,
     \<lparr>hs_id = 39, hs_name = ''R Glute TR (4a)'', hs_x = 0.62, hs_y = 0.46, hs_width = 0.01, hs_height = 0.01, hs_isDetail = False\<rparr>,
     \<lparr>hs_id = 39, hs_name = ''R Glute TR (4b)'', hs_x = 0.61, hs_y = 0.46, hs_width = 0.01, hs_height = 0.01, hs_isDetail = False\<rparr>,
     \<lparr>hs_id = 39, hs_name = ''R Glute TR (5a)'', hs_x = 0.65, hs_y = 0.485, hs_width = 0.01, hs_height = 0.01, hs_isDetail = False\<rparr>,
     \<lparr>hs_id = 39, hs_name = ''R Glute TR (5b)'', hs_x = 0.64, hs_y = 0.485, hs_width = 0.01, hs_height = 0.01, hs_isDetail = False\<rparr>,
     \<lparr>hs_id = 39, hs_name = ''R Glute TR (6a)'', hs_x = 0.63, hs_y = 0.495, hs_width = 0.01, hs_height = 0.01, hs_isDetail = False\<rparr>,
     \<lparr>hs_id = 39, hs_name = ''R Glute TR (6b)'', hs_x = 0.62, hs_y = 0.495, hs_width = 0.01, hs_height = 0.01, hs_isDetail = False\<rparr>,
     \<lparr>hs_id = 39, hs_name = ''R Glute (Superior Medial 1)'', hs_x = 0.60, hs_y = 0.48, hs_width = 0.02, hs_height = 0.015, hs_isDetail = False\<rparr>,
     \<lparr>hs_id = 39, hs_name = ''R Glute (Superior Medial 2)'', hs_x = 0.58, hs_y = 0.48, hs_width = 0.02, hs_height = 0.015, hs_isDetail = False\<rparr>,
     \<lparr>hs_id = 39, hs_name = ''R Glute (Superior Medial 3)'', hs_x = 0.59, hs_y = 0.49, hs_width = 0.02, hs_height = 0.015, hs_isDetail = False\<rparr>,
     \<lparr>hs_id = 39, hs_name = ''R UpperLateralThigh S1'', hs_x = 0.68, hs_y = 0.50, hs_width = 0.01, hs_height = 0.02, hs_isDetail = False\<rparr>,
     \<lparr>hs_id = 39, hs_name = ''R UpperLateralThigh S2'', hs_x = 0.69, hs_y = 0.50, hs_width = 0.01, hs_height = 0.02, hs_isDetail = False\<rparr>,
     \<lparr>hs_id = 39, hs_name = ''R UpperLateralThigh S3'', hs_x = 0.70, hs_y = 0.50, hs_width = 0.01, hs_height = 0.02, hs_isDetail = False\<rparr>,
     \<lparr>hs_id = 39, hs_name = ''R UpperLateralThigh S4'', hs_x = 0.68, hs_y = 0.52, hs_width = 0.01, hs_height = 0.02, hs_isDetail = False\<rparr>,
     \<lparr>hs_id = 39, hs_name = ''R UpperLateralThigh S5'', hs_x = 0.69, hs_y = 0.52, hs_width = 0.01, hs_height = 0.02, hs_isDetail = False\<rparr>,
     \<lparr>hs_id = 39, hs_name = ''R UpperLateralThigh S6'', hs_x = 0.70, hs_y = 0.52, hs_width = 0.01, hs_height = 0.02, hs_isDetail = False\<rparr>,
     \<lparr>hs_id = 39, hs_name = ''R UpperLateralThigh S7'', hs_x = 0.68, hs_y = 0.54, hs_width = 0.01, hs_height = 0.02, hs_isDetail = False\<rparr>,
     \<lparr>hs_id = 39, hs_name = ''R UpperLateralThigh S8'', hs_x = 0.69, hs_y = 0.54, hs_width = 0.01, hs_height = 0.02, hs_isDetail = False\<rparr>,
     \<lparr>hs_id = 39, hs_name = ''R UpperLateralThigh S9'', hs_x = 0.70, hs_y = 0.54, hs_width = 0.01, hs_height = 0.02, hs_isDetail = False\<rparr>,
     \<lparr>hs_id = 39, hs_name = ''R UpperLateralThigh S10'', hs_x = 0.68, hs_y = 0.56, hs_width = 0.01, hs_height = 0.02, hs_isDetail = False\<rparr>,
     \<lparr>hs_id = 39, hs_name = ''R UpperLateralThigh S11'', hs_x = 0.69, hs_y = 0.56, hs_width = 0.01, hs_height = 0.02, hs_isDetail = False\<rparr>,
     \<lparr>hs_id = 39, hs_name = ''R UpperLateralThigh S12'', hs_x = 0.70, hs_y = 0.56, hs_width = 0.01, hs_height = 0.02, hs_isDetail = False\<rparr>,
     \<lparr>hs_id = 39, hs_name = ''R UpperLateralThigh S13'', hs_x = 0.68, hs_y = 0.58, hs_width = 0.01, hs_height = 0.02, hs_isDetail = False\<rparr>,
     \<lparr>hs_id = 39, hs_name = ''R UpperLateralThigh S14'', hs_x = 0.69, hs_y = 0.58, hs_width = 0.01, hs_height = 0.02, hs_isDetail = False\<rparr>]"

definition backHotspots_13 :: "Hotspot list" where
  "backHotspots_13 =
    [\<lparr>hs_id = 39, hs_name = ''R UpperLateralThigh S15'', hs_x = 0.70, hs_y = 0.58, hs_width = 0.01, hs_height = 0.02, hs_isDetail = False\<rparr>,
     \<lparr>hs_id = 39, hs_name = ''Right Posterior Superior Iliac Spine (PSIS)'', hs_x = 0.54, hs_y = 0.47, hs_width = 0.04, hs_height = 0.03, hs_isDetail = False\<rparr>,
     \<lparr>hs_id = 39, hs_name = ''R Sacrum TopOuter A1'', hs_x = 0.58, hs_y = 0.455, hs_width = 0.01, hs_height = 0.01, hs_isDetail = False\<rparr>,
     \<lparr>hs_id = 39, hs_name = ''R Sacrum TopOuter A2'', hs_x = 0.57, hs_y = 0.455, hs_width = 0.01, hs_height = 0.01, hs_isDetail = False\<rparr>,
     \<lparr>hs_id = 39, hs_name = ''R Sacrum TopOuter A3'', hs_x = 0.58, hs_y = 0.465, hs_width = 0.01, hs_height = 0.01, hs_isDetail = False\<rparr>,
     \<lparr>hs_id = 39, hs_name = ''R Sacrum TopOuter A4'', hs_x = 0.57, hs_y = 0.465, hs_width = 0.01, hs_height = 0.01, hs_isDetail = False\<rparr>,
     \<lparr>hs_id = 39, hs_name = ''R Sacrum UpperLat B1'', hs_x = 0.565, hs_y = 0.47, hs_width = 0.01, hs_height = 0.01, hs_isDetail = False\<rparr>,
     \<lparr>hs_id = 39, hs_name = ''R Sacrum UpperLat B2'', hs_x = 0.555, hs_y = 0.47, hs_width = 0.01, hs_height = 0.01, hs_isDetail = False\<rparr>,
     \<lparr>hs_id = 39, hs_name = ''R Sacrum UpperLat B3'', hs_x = 0.565, hs_y = 0.48, hs_width = 0.01, hs_height = 0.01, hs_isDetail = False\<rparr>,
     \<lparr>hs_id = 39, hs_name = ''R Sacrum UpperLat B4'', hs_x = 0.555, hs_y = 0.48, hs_width = 0.01, hs_height = 0.01, hs_isDetail = False\<rparr>,
     \<lparr>hs_id = 39, hs_name = ''R PSIS (Sup 1)'', hs_x = 0.54, hs_y = 0.46, hs_width = 0.02, hs_height = 0.01, hs_isDetail = False\<rparr>,
     \<lparr>hs_id = 39, hs_name = ''R PSIS (Sup 2)'', hs_x = 0.56, hs_y = 0.46, hs_width = 0.02, hs_height = 0.01, hs_isDetail = False\<rparr>,
     \<lparr>hs_id = 39, hs_name = ''R PSIS (Lat 1)'', hs_x = 0.58, hs_y = 0.47, hs_width = 0.01, hs_height = 0.015, hs_isDetail = False\<rparr>,
     \<lparr>hs_id = 39, hs_name = ''R PSIS (Lat 2)'', hs_x = 0.57, hs_y = 0.47, hs_width = 0.01, hs_height = 0.015, hs_isDetail = False\<rparr>,
     \<lparr>hs_id = 39, hs_name = ''R SI Area (Sup 1)'', hs_x = 0.53, hs_y = 0.465, hs_width = 0.015, hs_height = 0.012, hs_isDetail = False\<rparr>,
     \<lparr>hs_id = 39, hs_name = ''R SI Area (Sup 2)'', hs_x = 0.515, hs_y = 0.465, hs_width = 0.015, hs_height = 0.013, hs_isDetail = False\<rparr>,
     \<lparr>hs_id = 39, hs_name = ''R Sacral Ala (Sup 1)'', hs_x = 0.525, hs_y = 0.475, hs_width = 0.012, hs_height = 0.01, hs_isDetail = False\<rparr>,
     \<lparr>hs_id = 39, hs_name = ''R Sacral Ala (Sup 2)'', hs_x = 0.513, hs_y = 0.475, hs_width = 0.012, hs_height = 0.01, hs_isDetail = False\<rparr>,
     \<lparr>hs_id = 39, hs_name = ''R Sacrum (TR 1a)'', hs_x = 0.57, hs_y = 0.46, hs_width = 0.01, hs_height = 0.01, hs_isDetail = False\<rparr>,
     \<lparr>hs_id = 39, hs_name = ''R Sacrum (TR 1b)'', hs_x = 0.56, hs_y = 0.46, hs_width = 0.01, hs_height = 0.01, hs_isDetail = False\<rparr>,
     \<lparr>hs_id = 39, hs_name = ''R Sacrum (TR 2a)'', hs_x = 0.55, hs_y = 0.46, hs_width = 0.01, hs_height = 0.01, hs_isDetail = False\<rparr>,
     \<lparr>hs_id = 39, hs_name = ''R Sacrum (TR 2b)'', hs_x = 0.54, hs_y = 0.46, hs_width = 0.01, hs_height = 0.01, hs_isDetail = False\<rparr>,
     \<lparr>hs_id = 39, hs_name = ''R Sacrum (TR 3a)'', hs_x = 0.57, hs_y = 0.47, hs_width = 0.01, hs_height = 0.01, hs_isDetail = False\<rparr>,
     \<lparr>hs_id = 39, hs_name = ''R Sacrum (TR 3b)'', hs_x = 0.56, hs_y = 0.47, hs_width = 0.01, hs_height = 0.01, hs_isDetail = False\<rparr>,
     \<lparr>hs_id = 39, hs_name = ''R Sacrum (TR 4a)'', hs_x = 0.57, hs_y = 0.48, hs_width = 0.01, hs_height = 0.01, hs_isDetail = False\<rparr>]"

definition backHotspots_14 :: "Hotspot list" where
  "backHotspots_14 =
    [\<lparr>hs_id = 39, hs_name = ''R Sacrum (TR 4b)'', hs_x = 0.56, hs_y = 0.48, hs_width = 0.01, hs_height = 0.01, hs_isDetail = False\<rparr>,
     \<lparr>hs_id = 39, hs_name = ''Sacrum (Midline)'', hs_x = 0.475, hs_y = 0.48, hs_width = 0.05, hs_height = 0.04, hs_isDetail = False\<rparr>,
     \<lparr>hs_id = 39, hs_name = ''Sacrum (Sup Cent 1)'', hs_x = 0.475, hs_y = 0.47, hs_width = 0.025, hs_height = 0.01, hs_isDetail = False\<rparr>,
     \<lparr>hs_id = 39, hs_name = ''Sacrum (Sup Cent 2)'', hs_x = 0.50, hs_y = 0.47, hs_width = 0.025, hs_height = 0.01, hs_isDetail = False\<rparr>,
     \<lparr>hs_id = 39, hs_name = ''Sacrum (Mid Cent 1)'', hs_x = 0.475, hs_y = 0.49, hs_width = 0.025, hs_height = 0.01, hs_isDetail = False\<rparr>,
     \<lparr>hs_id = 39, hs_name = ''Sacrum (Mid Cent 2)'', hs_x = 0.50, hs_y = 0.49, hs_width = 0.025, hs_height = 0.01, hs_isDetail = False\<rparr>,
     \<lparr>hs_id = 40, hs_name = ''Left Proximal Hamstring'', hs_x = 0.33, hs_y = 0.60, hs_width = 0.11, hs_height = 0.06, hs_isDetail = False\<rparr>,
     \<lparr>hs_id = 40, hs_name = ''L LowerLateralThigh S16'', hs_x = 0.28, hs_y = 0.60, hs_width = 0.01, hs_height = 0.02, hs_isDetail = False\<rparr>,
     \<lparr>hs_id = 40, hs_name = ''L LowerLateralThigh S17'', hs_x = 0.29, hs_y = 0.60, hs_width = 0.01, hs_height = 0.02, hs_isDetail = False\<rparr>,
     \<lparr>hs_id = 40, hs_name = ''L LowerLateralThigh S18'', hs_x = 0.30, hs_y = 0.60, hs_width = 0.01, hs_height = 0.02, hs_isDetail = False\<rparr>,
     \<lparr>hs_id = 40, hs_name = ''L LowerLateralThigh S19'', hs_x = 0.28, hs_y = 0.62, hs_width = 0.01, hs_height = 0.02, hs_isDetail = False\<rparr>,
     \<lparr>hs_id = 40, hs_name = ''L LowerLateralThigh S20'', hs_x = 0.29, hs_y = 0.62, hs_width = 0.01, hs_height = 0.02, hs_isDetail = False\<rparr>,
     \<lparr>hs_id = 40, hs_name = ''L LowerLateralThigh S21'', hs_x = 0.30, hs_y = 0.62, hs_width = 0.01, hs_height = 0.02, hs_isDetail = False\<rparr>,
     \<lparr>hs_id = 40, hs_name = ''L LowerLateralThigh S22'', hs_x = 0.28, hs_y = 0.64, hs_width = 0.01, hs_height = 0.02, hs_isDetail = False\<rparr>,
     \<lparr>hs_id = 40, hs_name = ''L LowerLateralThigh S23'', hs_x = 0.29, hs_y = 0.64, hs_width = 0.01, hs_height = 0.02, hs_isDetail = False\<rparr>,
     \<lparr>hs_id = 40, hs_name = ''L LowerLateralThigh S24'', hs_x = 0.30, hs_y = 0.64, hs_width = 0.01, hs_height = 0.02, hs_isDetail = False\<rparr>,
     \<lparr>hs_id = 40, hs_name = ''L LowerLateralThigh S25'', hs_x = 0.28, hs_y = 0.66, hs_width = 0.01, hs_height = 0.02, hs_isDetail = False\<rparr>,
     \<lparr>hs_id = 40, hs_name = ''L LowerLateralThigh S26'', hs_x = 0.29, hs_y = 0.66, hs_width = 0.01, hs_height = 0.02, hs_isDetail = False\<rparr>,
     \<lparr>hs_id = 40, hs_name = ''L LowerLateralThigh S27'', hs_x = 0.30, hs_y = 0.66, hs_width = 0.01, hs_height = 0.02, hs_isDetail = False\<rparr>,
     \<lparr>hs_id = 40, hs_name = ''L LowerLateralThigh S28'', hs_x = 0.28, hs_y = 0.68, hs_width = 0.01, hs_height = 0.02, hs_isDetail = False\<rparr>,
     \<lparr>hs_id = 40, hs_name = ''L LowerLateralThigh S29'', hs_x = 0.29, hs_y = 0.68, hs_width = 0.01, hs_height = 0.02, hs_isDetail = False\<rparr>,
     \<lparr>hs_id = 40, hs_name = ''L LowerLateralThigh S30'', hs_x = 0.30, hs_y = 0.68, hs_width = 0.01, hs_height = 0.02, hs_isDetail = False\<rparr>,
     \<lparr>hs_id = 41, hs_name = ''Right Proximal Hamstring'', hs_x = 0.56, hs_y = 0.60, hs_width = 0.11, hs_height = 0.06, hs_isDetail = False\<rparr>,
     \<lparr>hs_id = 41, hs_name = ''R LowerLateralThigh S16'', hs_x = 0.68, hs_y = 0.60, hs_width = 0.01, hs_height = 0.02, hs_isDetail = False\<rparr>,
     \<lparr>hs_id = 41, hs_name = ''R LowerLateralThigh S17'', hs_x = 0.69, hs_y = 0.60, hs_width = 0.01, hs_height = 0.02, hs_isDetail = False\<rparr>]"

definition backHotspots_15 :: "Hotspot list" where
  "backHotspots_15 =
    [\<lparr>hs_id = 41, hs_name = ''R LowerLateralThigh S18'', hs_x = 0.70, hs_y = 0.60, hs_width = 0.01, hs_height = 0.02, hs_isDetail = False\<rparr>,
     \<lparr>hs_id = 41, hs_name = ''R LowerLateralThigh S19'', hs_x = 0.68, hs_y = 0.62, hs_width = 0.01, hs_height = 0.02, hs_isDetail = False\<rparr>,
     \<lparr>hs_id = 41, hs_name = ''R LowerLateralThigh S20'', hs_x = 0.69, hs_y = 0.62, hs_width = 0.01, hs_height = 0.02, hs_isDetail = False\<rparr>,
     \<lparr>hs_id = 41, hs_name = ''R LowerLateralThigh S21'', hs_x = 0.70, hs_y = 0.62, hs_width = 0.01, hs_height = 0.02, hs_isDetail = False\<rparr>,
     \<lparr>hs_id = 41, hs_name = ''R LowerLateralThigh S22'', hs_x = 0.68, hs_y = 0.64, hs_width = 0.01, hs_height = 0.02, hs_isDetail = False\<rparr>,
     \<lparr>hs_id = 41, hs_name = ''R LowerLateralThigh S23'', hs_x = 0.69, hs_y = 0.64, hs_width = 0.01, hs_height = 0.02, hs_isDetail = False\<rparr>,
     \<lparr>hs_id = 41, hs_name = ''R LowerLateralThigh S24'', hs_x = 0.70, hs_y = 0.64, hs_width = 0.01, hs_height = 0.02, hs_isDetail = False\<rparr>,
     \<lparr>hs_id = 41, hs_name = ''R LowerLateralThigh S25'', hs_x = 0.68, hs_y = 0.66, hs_width = 0.01, hs_height = 0.02, hs_isDetail = False\<rparr>,
     \<lparr>hs_id = 41, hs_name = ''R LowerLateralThigh S26'', hs_x = 0.69, hs_y = 0.66, hs_width = 0.01, hs_height = 0.02, hs_isDetail = False\<rparr>,
     \<lparr>hs_id = 41, hs_name = ''R LowerLateralThigh S27'', hs_x = 0.70, hs_y = 0.66, hs_width = 0.01, hs_height = 0.02, hs_isDetail = False\<rparr>,
     \<lparr>hs_id = 41, hs_name = ''R LowerLateralThigh S28'', hs_x = 0.68, hs_y = 0.68, hs_width = 0.01, hs_height = 0.02, hs_isDetail = False\<rparr>,
     \<lparr>hs_id = 41, hs_name = ''R LowerLateralThigh S29'', hs_x = 0.69, hs_y = 0.68, hs_width = 0.01, hs_height = 0.02, hs_isDetail = False\<rparr>,
     \<lparr>hs_id = 41, hs_name = ''R LowerLateralThigh S30'', hs_x = 0.70, hs_y = 0.68, hs_width = 0.01, hs_height = 0.02, hs_isDetail = False\<rparr>,
     \<lparr>hs_id = 42, hs_name = ''Left Mid-Hamstring'', hs_x = 0.33, hs_y = 0.66, hs_width = 0.11, hs_height = 0.06, hs_isDetail = False\<rparr>,
     \<lparr>hs_id = 42, hs_name = ''Left Distal Hamstring (Popliteal Superior)'', hs_x = 0.34, hs_y = 0.72, hs_width = 0.1, hs_height = 0.04, hs_isDetail = False\<rparr>,
     \<lparr>hs_id = 42, hs_name = ''Left Calf (Gastrocnemius - Medial Head)'', hs_x = 0.37, hs_y = 0.76, hs_width = 0.06, hs_height = 0.07, hs_isDetail = False\<rparr>,
     \<lparr>hs_id = 42, hs_name = ''Left Calf (Gastrocnemius - Lateral Head)'', hs_x = 0.30, hs_y = 0.76, hs_width = 0.06, hs_height = 0.07, hs_isDetail = False\<rparr>,
     \<lparr>hs_id = 42, hs_name = ''Left Calf (Soleus - Mid)'', hs_x = 0.33, hs_y = 0.83, hs_width = 0.08, hs_height = 0.06, hs_isDetail = False\<rparr>,
     \<lparr>hs_id = 42, hs_name = ''Left Lateral Shin (Posterior)'', hs_x = 0.28, hs_y = 0.80, hs_width = 0.05, hs_height = 0.08, hs_isDetail = False\<rparr>,
     \<lparr>hs_id = 43, hs_name = ''Right Mid-Hamstring'', hs_x = 0.56, hs_y = 0.66, hs_width = 0.11, hs_height = 0.06, hs_isDetail = False\<rparr>,
     \<lparr>hs_id = 43, hs_name = ''Right Distal Hamstring (Popliteal Superior)'', hs_x = 0.56, hs_y = 0.72, hs_width = 0.1, hs_height = 0.04, hs_isDetail = False\<rparr>,
     \<lparr>hs_id = 43, hs_name = ''Right Calf (Gastrocnemius - Medial Head)'', hs_x = 0.57, hs_y = 0.76, hs_width = 0.06, hs_height = 0.07, hs_isDetail = False\<rparr>,
     \<lparr>hs_id = 43, hs_name = ''Right Calf (Gastrocnemius - Lateral Head)'', hs_x = 0.64, hs_y = 0.76, hs_width = 0.06, hs_height = 0.07, hs_isDetail = False\<rparr>,
     \<lparr>hs_id = 43, hs_name = ''Right Calf (Soleus - Mid)'', hs_x = 0.59, hs_y = 0.83, hs_width = 0.08, hs_height = 0.06, hs_isDetail = False\<rparr>,
     \<lparr>hs_id = 43, hs_name = ''Right Lateral Shin (Posterior)'', hs_x = 0.67, hs_y = 0.80, hs_width = 0.05, hs_height = 0.08, hs_isDetail = False\<rparr>]"

definition backHotspots_16 :: "Hotspot list" where
  "backHotspots_16 =
    [\<lparr>hs_id = 44, hs_name = ''Left Achilles Tendon'', hs_x = 0.35, hs_y = 0.89, hs_width = 0.05, hs_height = 0.04, hs_isDetail = False\<rparr>,
     \<lparr>hs_id = 44, hs_name = ''Left Heel (Posterior)'', hs_x = 0.35, hs_y = 0.93, hs_width = 0.06, hs_height = 0.03, hs_isDetail = False\<rparr>,
     \<lparr>hs_id = 44, hs_name = ''Left Sole (Plantar Heel)'', hs_x = 0.34, hs_y = 0.96, hs_width = 0.07, hs_height = 0.03, hs_isDetail = True\<rparr>,
     \<lparr>hs_id = 44, hs_name = ''Left Sole (Plantar Arch - Medial)'', hs_x = 0.37, hs_y = 0.95, hs_width = 0.04, hs_height = 0.02, hs_isDetail = True\<rparr>,
     \<lparr>hs_id = 44, hs_name = ''Left Sole (Plantar Arch - Lateral)'', hs_x = 0.31, hs_y = 0.95, hs_width = 0.04, hs_height = 0.02, hs_isDetail = True\<rparr>,
     \<lparr>hs_id = 44, hs_name = ''Left Sole (Plantar Forefoot - Medial)'', hs_x = 0.36, hs_y = 0.94, hs_width = 0.04, hs_height = 0.02, hs_isDetail = True\<rparr>,
     \<lparr>hs_id = 44, hs_name = ''Left Sole (Plantar Forefoot - Lateral)'', hs_x = 0.30, hs_y = 0.94, hs_width = 0.04, hs_height = 0.02, hs_isDetail = True\<rparr>,
     \<lparr>hs_id = 45, hs_name = ''Right Achilles Tendon'', hs_x = 0.60, hs_y = 0.89, hs_width = 0.05, hs_height = 0.04, hs_isDetail = False\<rparr>,
     \<lparr>hs_id = 45, hs_name = ''Right Heel (Posterior)'', hs_x = 0.59, hs_y = 0.93, hs_width = 0.06, hs_height = 0.03, hs_isDetail = False\<rparr>,
     \<lparr>hs_id = 45, hs_name = ''Right Sole (Plantar Heel)'', hs_x = 0.59, hs_y = 0.96, hs_width = 0.07, hs_height = 0.03, hs_isDetail = True\<rparr>,
     \<lparr>hs_id = 45, hs_name = ''Right Sole (Plantar Arch - Medial)'', hs_x = 0.59, hs_y = 0.95, hs_width = 0.04, hs_height = 0.02, hs_isDetail = True\<rparr>,
     \<lparr>hs_id = 45, hs_name = ''Right Sole (Plantar Arch - Lateral)'', hs_x = 0.65, hs_y = 0.95, hs_width = 0.04, hs_height = 0.02, hs_isDetail = True\<rparr>,
     \<lparr>hs_id = 45, hs_name = ''Right Sole (Plantar Forefoot - Medial)'', hs_x = 0.60, hs_y = 0.94, hs_width = 0.04, hs_height = 0.02, hs_isDetail = True\<rparr>,
     \<lparr>hs_id = 45, hs_name = ''Right Sole (Plantar Forefoot - Lateral)'', hs_x = 0.66, hs_y = 0.94, hs_width = 0.04, hs_height = 0.02, hs_isDetail = True\<rparr>]"

definition backHotspots :: "Hotspot list" where
  "backHotspots =
     backHotspots_1 @
     backHotspots_2 @
     backHotspots_3 @
     backHotspots_4 @
     backHotspots_5 @
     backHotspots_6 @
     backHotspots_7 @
     backHotspots_8 @
     backHotspots_9 @
     backHotspots_10 @
     backHotspots_11 @
     backHotspots_12 @
     backHotspots_13 @
     backHotspots_14 @
     backHotspots_15 @
     backHotspots_16"

text \<open>The handler as the component runs it, on the two tables above.\<close>

definition resolve :: "Click \<Rightarrow> State \<Rightarrow> Outcome" where
  "resolve = resolveWith frontHotspots backHotspots"

definition handleImageClick :: "Click \<Rightarrow> State \<Rightarrow> State" where
  "handleImageClick = handleImageClickWith frontHotspots backHotspots"

section \<open>Predicates used in the statements\<close>

text \<open>\<^verbatim>\<open>hotspotsToSearch\<close>: the catalog of the active view.\<close>

definition hotspotsToSearch :: "Hotspot list \<Rightarrow> Hotspot list \<Rightarrow> State \<Rightarrow> Hotspot list" where
  "hotspotsToSearch fronts backs st = (if currentView st = Front then fronts else backs)"

text \<open>The negation of the first guard of \<^verbatim>\<open>handleImageClick\<close>.\<close>

definition insideDisplayed :: "Click \<Rightarrow> bool" where
  "insideDisplayed ev =
     (\<not> (clickX ev < 0 \<or> clickX ev > imageWidth ev \<or> clickY ev < 0 \<or> clickY ev > imageHeight ev))"

text \<open>The values the handler binds to \<^verbatim>\<open>canvasClickX\<close> and \<^verbatim>\<open>canvasClickY\<close>.\<close>

definition canvasClickX :: "Click \<Rightarrow> Canvas \<Rightarrow> int option" where
  "canvasClickX ev canvas = toNatural (clickX ev) (imageWidth ev) (cv_width canvas)"

definition canvasClickY :: "Click \<Rightarrow> Canvas \<Rightarrow> int option" where
  "canvasClickY ev canvas = toNatural (clickY ev) (imageHeight ev) (cv_height canvas)"

text \<open>The canvas exists and neither of its dimensions is zero.\<close>

definition canvasReady :: "State \<Rightarrow> bool" where
  "canvasReady st =
     (case canvasRef st of None \<Rightarrow> False
      | Some canvas \<Rightarrow> cv_width canvas \<noteq> 0 \<and> cv_height canvas \<noteq> 0)"

text \<open>Every guard before \<^verbatim>\<open>getImageData\<close> lets the click through.\<close>

definition reachesSampling :: "Click \<Rightarrow> State \<Rightarrow> bool" where
  "reachesSampling ev st =
     (insideDisplayed ev \<and> canvasReady st \<and>
      (case canvasRef st of None \<Rightarrow> False
       | Some canvas \<Rightarrow>
           cv_context2d canvas \<and>
           \<not> outOfRange (canvasClickX ev canvas) (cv_width canvas) \<and>
           \<not> outOfRange (canvasClickY ev canvas) (cv_height canvas)))"

text \<open>The alpha byte the handler reads for the click.\<close>

definition sampledAlpha :: "Click \<Rightarrow> Canvas \<Rightarrow> nat" where
  "sampledAlpha ev canvas =
     getImageData_alpha canvas (canvasClickX ev canvas) (canvasClickY ev canvas)"

definition transparentAt :: "Click \<Rightarrow> State \<Rightarrow> bool" where
  "transparentAt ev st =
     (case canvasRef st of None \<Rightarrow> False | Some canvas \<Rightarrow> sampledAlpha ev canvas < 10)"

text \<open>The click passes the bounds checks and the transparency check.\<close>

definition passesChecks :: "Click \<Rightarrow> State \<Rightarrow> bool" where
  "passesChecks ev st = (reachesSampling ev st \<and> \<not> transparentAt ev st)"

text \<open>Index \<open>i\<close> holds a hotspot of least distance to the click, and every earlier
  hotspot is strictly farther away.\<close>

definition isFirstClosest :: "Click \<Rightarrow> Hotspot list \<Rightarrow> nat \<Rightarrow> bool" where
  "isFirstClosest ev hs i =
     (i < length hs \<and>
      (\<forall>j < length hs. distance ev (hs ! i) \<le> distance ev (hs ! j)) \<and>
      (\<forall>j < i. distance ev (hs ! i) < distance ev (hs ! j)))"

text \<open>The notes string \<^verbatim>\<open>handleImageClick\<close> builds for a hotspot.\<close>

definition notesOf :: "BodyView \<Rightarrow> Hotspot \<Rightarrow> string" where
  "notesOf view h =
     ''View: '' @ viewName view @ '', RegionID: '' @ string_of_nat (hs_id h) @
     (if hs_isDetail h then '', Detail: '' @ hs_name h else [])"

text \<open>All four numbers of the bounding box are fractions in \<open>[0, 1]\<close>.\<close>

definition boxInUnit :: "Hotspot \<Rightarrow> bool" where
  "boxInUnit h =
     (0 \<le> hs_x h \<and> hs_x h \<le> 1 \<and> 0 \<le> hs_y h \<and> hs_y h \<le> 1 \<and>
      0 \<le> hs_width h \<and> hs_width h \<le> 1 \<and> 0 \<le> hs_height h \<and> hs_height h \<le> 1)"

text \<open>The name has no colon.\<close>

definition plainName :: "Hotspot \<Rightarrow> bool" where
  "plainName h = (CHR '':'' \<notin> set (hs_name h))"

section \<open>Example inputs\<close>

definition opaqueCanvas :: Canvas where
  "opaqueCanvas = \<lparr>cv_width = 100, cv_height = 200, cv_context2d = True,
                    cv_alpha = (\<lambda>px py. 255)\<rparr>"

definition readyState :: State where
  "readyState = \<lparr>painAreas = [], selectedPainAreaId = None, currentView = Back,
                  canvasRef = Some opaqueCanvas\<rparr>"

definition sampleClick :: Click where
  "sampleClick = \<lparr>clientX = 185, clientY = 370, rect_left = 100, rect_top = 200,
                   rect_width = 200, rect_height = 400, date_now = 1700000000000\<rparr>"

definition markA :: PainArea where
  "markA = \<lparr>pa_id = ''point-1'', pa_region = ''Left Patella'', pa_intensity = 5,
             pa_coordinates = Some \<lparr>co_x = 10, co_y = 20\<rparr>,
             pa_notes = Some ''View: front, RegionID: 20''\<rparr>"

definition markB :: PainArea where
  "markB = \<lparr>pa_id = ''point-2'', pa_region = ''Occiput'', pa_intensity = 8,
             pa_coordinates = Some \<lparr>co_x = 30, co_y = 40\<rparr>,
             pa_notes = Some ''View: back, RegionID: 25''\<rparr>"

definition storedState :: State where
  "storedState = \<lparr>painAreas = [markA, markB], selectedPainAreaId = None,
                   currentView = Front, canvasRef = Some opaqueCanvas\<rparr>"

text \<open>Three hotspots for a 200 by 400 image: the first has its centre at (85, 210), the
  second at (75, 170), the third at (95, 170).\<close>

definition tieCatalog :: "Hotspot list" where
  "tieCatalog =
     [\<lparr>hs_id = 7, hs_name = ''Far'', hs_x = 0.375, hs_y = 0.5, hs_width = 0.1,
       hs_height = 0.05, hs_isDetail = False\<rparr>,
      \<lparr>hs_id = 8, hs_name = ''Near Left'', hs_x = 0.325, hs_y = 0.4, hs_width = 0.1,
       hs_height = 0.05, hs_isDetail = True\<rparr>,
      \<lparr>hs_id = 9, hs_name = ''Near Right'', hs_x = 0.425, hs_y = 0.4, hs_width = 0.1,
       hs_height = 0.05, hs_isDetail = False\<rparr>]"








section \<open>Store lemmas\<close>

lemma painAreas_removePainArea:
  "painAreas (removePainArea i st) = filter (\<lambda>area. pa_id area \<noteq> i) (painAreas st)"
  by (simp add: removePainArea_def handlePainAreaUpdate_def Let_def)

lemma removePainArea_twice:
  "removePainArea i (removePainArea i st) = removePainArea i st"
  by (simp add: removePainArea_def handlePainAreaUpdate_def Let_def)

lemma filter_absent_id:
  "i \<notin> pa_id ` set xs \<Longrightarrow> filter (\<lambda>a. pa_id a \<noteq> i) xs = xs"
  by (induction xs) auto

lemma filter_distinct_split:
  assumes "distinct (map pa_id xs)" and "i \<in> pa_id ` set xs"
  shows "\<exists>ys a zs. xs = ys @ a # zs \<and> pa_id a = i \<and>
           filter (\<lambda>a. pa_id a \<noteq> i) xs = ys @ zs"
proof -
  from assms(2) obtain a where a: "a \<in> set xs" "pa_id a = i" by auto
  then obtain ys zs where xs: "xs = ys @ a # zs" by (auto dest: split_list)
  with assms(1) a(2) have "i \<notin> pa_id ` set ys" "i \<notin> pa_id ` set zs" by auto
  then have "filter (\<lambda>a. pa_id a \<noteq> i) xs = ys @ zs"
    using xs a(2) by (simp add: filter_absent_id)
  with xs a(2) show ?thesis by blast
qed

lemma selectedPainArea_present:
  assumes "i \<noteq> []" and "i \<in> pa_id ` set (painAreas st)"
  shows "\<exists>a. selectedPainArea (setSelectedPainAreaId (Some i) st) = Some a"
proof -
  have "find (\<lambda>area. pa_id area = i) (painAreas st) \<noteq> None"
    using assms(2) by (auto simp: find_None_iff)
  then show ?thesis
    using assms(1) by (auto simp: selectedPainArea_def setSelectedPainAreaId_def)
qed

lemma painAreas_setIntensity:
  assumes "i \<noteq> []" and "i \<in> pa_id ` set (painAreas st)"
  shows "painAreas (setIntensity i v st) =
           map (\<lambda>a. if pa_id a = i then a\<lparr>pa_intensity := v\<rparr> else a) (painAreas st)"
proof -
  from selectedPainArea_present [OF assms] obtain a
    where "selectedPainArea (setSelectedPainAreaId (Some i) st) = Some a" ..
  then show ?thesis
    by (simp add: setIntensity_def handleIntensityChange_def handlePainAreaUpdate_def
        setSelectedPainAreaId_def)
qed

lemma painAreas_addPainArea: "painAreas (addPainArea r st) = painAreas st @ [r]"
  by (simp add: addPainArea_def handlePainAreaUpdate_def setSelectedPainAreaId_def)

lemma setIntensity_after_add:
  assumes "pa_id r \<noteq> []"
  shows "painAreas (setIntensity (pa_id r) v (addPainArea r st)) =
           map (\<lambda>a. if pa_id a = pa_id r then a\<lparr>pa_intensity := v\<rparr> else a) (painAreas st)
           @ [r\<lparr>pa_intensity := v\<rparr>]"
  using assms by (simp add: painAreas_setIntensity painAreas_addPainArea)

section \<open>Resolver lemmas\<close>

lemma closestLoop_append:
  "closestLoop ev (xs @ ys) acc = closestLoop ev ys (closestLoop ev xs acc)"
  by (induction xs arbitrary: acc) (auto split: prod.splits)

lemma closestLoop_first_min:
  "hs \<noteq> [] \<Longrightarrow>
     \<exists>i. isFirstClosest ev hs i \<and>
         closestLoop ev hs (None, None) = (Some (hs ! i), Some (distance ev (hs ! i)))"
proof (induction hs rule: rev_induct)
  case Nil
  then show ?case by simp
next
  case (snoc x xs)
  show ?case
  proof (cases "xs = []")
    case True
    then have "isFirstClosest ev (xs @ [x]) 0"
      by (simp add: isFirstClosest_def)
    moreover have "closestLoop ev (xs @ [x]) (None, None) = (Some x, Some (distance ev x))"
      using True by (simp add: belowMin_def)
    ultimately show ?thesis using True by auto
  next
    case False
    with snoc.IH obtain i where i: "isFirstClosest ev xs i"
      and run: "closestLoop ev xs (None, None) = (Some (xs ! i), Some (distance ev (xs ! i)))"
      by blast
    from i have il: "i < length xs" by (simp add: isFirstClosest_def)
    show ?thesis
    proof (cases "distance ev x < distance ev (xs ! i)")
      case True
      have "isFirstClosest ev (xs @ [x]) (length xs)"
        unfolding isFirstClosest_def
      proof (intro conjI allI impI)
        show "length xs < length (xs @ [x])" by simp
      next
        fix j assume "j < length (xs @ [x])"
        then consider "j < length xs" | "j = length xs" by force
        then show "distance ev ((xs @ [x]) ! length xs) \<le> distance ev ((xs @ [x]) ! j)"
        proof cases
          case 1
          with i have "distance ev (xs ! i) \<le> distance ev (xs ! j)"
            by (simp add: isFirstClosest_def)
          with True 1 show ?thesis by (simp add: nth_append)
        next
          case 2
          then show ?thesis by simp
        qed
      next
        fix j assume j: "j < length xs"
        with i have "distance ev (xs ! i) \<le> distance ev (xs ! j)"
          by (simp add: isFirstClosest_def)
        with True j show "distance ev ((xs @ [x]) ! length xs) < distance ev ((xs @ [x]) ! j)"
          by (simp add: nth_append)
      qed
      moreover have "closestLoop ev (xs @ [x]) (None, None) = (Some x, Some (distance ev x))"
        using True run by (simp add: closestLoop_append belowMin_def)
      ultimately show ?thesis by (intro exI [of _ "length xs"]) simp
    next
      case False
      have "isFirstClosest ev (xs @ [x]) i"
        unfolding isFirstClosest_def
      proof (intro conjI allI impI)
        show "i < length (xs @ [x])" using il by simp
      next
        fix j assume "j < length (xs @ [x])"
        then consider "j < length xs" | "j = length xs" by force
        then show "distance ev ((xs @ [x]) ! i) \<le> distance ev ((xs @ [x]) ! j)"
        proof cases
          case 1
          with i il show ?thesis by (simp add: isFirstClosest_def nth_append)
        next
          case 2
          with False il show ?thesis by (simp add: nth_append)
        qed
      next
        fix j assume j: "j < i"
        with i il show "distance ev ((xs @ [x]) ! i) < distance ev ((xs @ [x]) ! j)"
          by (simp add: isFirstClosest_def nth_append)
      qed
      moreover have "closestLoop ev (xs @ [x]) (None, None)
                       = (Some (xs ! i), Some (distance ev (xs ! i)))"
        using False run by (simp add: closestLoop_append belowMin_def)
      ultimately show ?thesis using il by (intro exI [of _ i]) (simp add: nth_append)
    qed
  qed
qed

lemmas check_defs =
  passesChecks_def reachesSampling_def transparentAt_def sampledAlpha_def canvasReady_def
  insideDisplayed_def canvasClickX_def canvasClickY_def hotspotsToSearch_def

lemma resolveWith_passes:
  "passesChecks ev st \<Longrightarrow>
     resolveWith fronts backs ev st =
       (if hotspotsToSearch fronts backs st = [] then EmptyCatalog
        else case fst (closestLoop ev (hotspotsToSearch fronts backs st) (None, None)) of
               None \<Rightarrow> NoClosest
             | Some h \<Rightarrow> Match h)"
  by (auto simp: check_defs resolveWith_def Let_def split: option.splits)


lemma resolveWith_first_closest:
  assumes "passesChecks ev st" and "hotspotsToSearch fronts backs st \<noteq> []"
  shows "\<exists>i. isFirstClosest ev (hotspotsToSearch fronts backs st) i \<and>
             resolveWith fronts backs ev st = Match (hotspotsToSearch fronts backs st ! i)"
proof -
  from closestLoop_first_min [OF assms(2)] obtain i
    where "isFirstClosest ev (hotspotsToSearch fronts backs st) i"
      and "closestLoop ev (hotspotsToSearch fronts backs st) (None, None) =
             (Some (hotspotsToSearch fronts backs st ! i),
              Some (distance ev (hotspotsToSearch fronts backs st ! i)))"
    by blast
  then show ?thesis
    using assms by (auto simp: resolveWith_passes)
qed


lemma handleImageClickWith_accepted:
  assumes "passesChecks ev st" and "hotspotsToSearch fronts backs st \<noteq> []"
  shows "\<exists>i. isFirstClosest ev (hotspotsToSearch fronts backs st) i \<and>
             handleImageClickWith fronts backs ev st =
               addPainArea (newPainArea (currentView st) ev (hotspotsToSearch fronts backs st ! i)) st"
  using resolveWith_first_closest [OF assms]
  by (auto simp: handleImageClickWith_def)


lemma pa_id_newPainArea:
  "pa_id (newPainArea view ev h) = ''point-'' @ string_of_nat (date_now ev)"
  by (simp add: newPainArea_def Let_def)

lemma nth_map_other_id:
  assumes "k < length xs" and "pa_id (xs ! k) \<noteq> i"
  shows "(map (\<lambda>a. if pa_id a = i then a\<lparr>pa_intensity := v\<rparr> else a) xs @ ys) ! k = xs ! k"
  using assms by (simp add: nth_append)

lemma map_pa_id_intensity:
  "map pa_id (map (\<lambda>a. if pa_id a = i then a\<lparr>pa_intensity := v\<rparr> else a) xs) = map pa_id xs"
  by (induction xs) simp_all

lemma intensity_after_map:
  "a \<in> set (map (\<lambda>a. if pa_id a = i then a\<lparr>pa_intensity := v\<rparr> else a) xs) \<Longrightarrow>
     pa_id a = i \<Longrightarrow> pa_intensity a = v"
proof (induction xs)
  case Nil
  then show ?case by simp
next
  case (Cons x xs)
  show ?case
  proof (cases "a = (if pa_id x = i then x\<lparr>pa_intensity := v\<rparr> else x)")
    case True
    with Cons.prems(2) show ?thesis by (cases "pa_id x = i") simp_all
  next
    case False
    with Cons.prems(1) have "a \<in> set (map (\<lambda>a. if pa_id a = i then a\<lparr>pa_intensity := v\<rparr> else a) xs)"
      by simp
    then show ?thesis using Cons.prems(2) by (rule Cons.IH)
  qed
qed

section \<open>String lemmas\<close>

lemma startsWith_set: "startsWith s t \<Longrightarrow> set t \<subseteq> set s"
  by (induction s t rule: startsWith.induct) auto

lemma includes_str_set: "includes_str s t \<Longrightarrow> set t \<subseteq> set s"
proof (induction s)
  case Nil
  then show ?case by simp
next
  case (Cons a s)
  from Cons.prems have "startsWith (a # s) t \<or> includes_str s t" by simp
  then show ?case
  proof
    assume "startsWith (a # s) t"
    then show ?thesis by (rule startsWith_set)
  next
    assume "includes_str s t"
    with Cons.IH show ?thesis by auto
  qed
qed

lemma includes_str_skip:
  "c \<notin> set s1 \<Longrightarrow> includes_str (s1 @ s2) (c # t) = includes_str s2 (c # t)"
  by (induction s1) auto

lemma digitChar_digit: "d < 10 \<Longrightarrow> digitChar d \<in> set ''0123456789''"
  unfolding digitChar_def by (rule nth_mem) simp

lemma string_of_nat_digits: "set (string_of_nat n) \<subseteq> set ''0123456789''"
proof (induction n rule: string_of_nat.induct)
  case (1 n)
  show ?case
  proof (cases "n < 10")
    case True
    then show ?thesis
      using digitChar_digit [of n] by (subst string_of_nat.simps) simp
  next
    case False
    have "n mod 10 < 10" by simp
    from digitChar_digit [OF this] 1 [OF False] False show ?thesis
      by (subst string_of_nat.simps) simp
  qed
qed

lemma string_of_nat_no_V: "CHR ''V'' \<notin> set (string_of_nat n)"
  using string_of_nat_digits [of n] by auto

lemma pa_notes_newPainArea: "pa_notes (newPainArea view ev h) = Some (notesOf view h)"
  by (simp add: newPainArea_def notesOf_def Let_def)

lemma notesOf_own_view: "includes_str (notesOf view h) (''View: '' @ viewName view)"
  by (cases view) (simp_all add: notesOf_def viewName_def)

lemma notesOf_other_view:
  assumes "plainName h" and "view' \<noteq> view"
  shows "\<not> includes_str (notesOf view h) (''View: '' @ viewName view')"
proof
  assume inc: "includes_str (notesOf view h) (''View: '' @ viewName view')"
  define tail where "tail = (if hs_isDetail h then hs_name h else [])"
  define mid where
    "mid = string_of_nat (hs_id h) @ (if hs_isDetail h then '', Detail: '' else [])"
  have noV: "CHR ''V'' \<notin> set mid"
    using string_of_nat_no_V [of "hs_id h"] by (simp add: mid_def)
  have nts: "notesOf view h = ''View: '' @ viewName view @ '', RegionID: '' @ mid @ tail"
    by (simp add: notesOf_def mid_def tail_def)
  have inc': "includes_str (''View: '' @ viewName view @ '', RegionID: '' @ mid @ tail)
                 (''View: '' @ viewName view')"
    using inc by (simp only: nts)
  have "includes_str tail (''View: '' @ viewName view')"
  proof (cases view)
    case Front
    with assms(2) have v': "view' = Back" by (cases view') auto
    have "includes_str (mid @ tail) (CHR ''V'' # ''iew: back'')"
      using inc' by (simp add: Front v' viewName_def)
    then have "includes_str tail (CHR ''V'' # ''iew: back'')"
      using noV by (simp add: includes_str_skip)
    then show ?thesis by (simp add: v' viewName_def)
  next
    case Back
    with assms(2) have v': "view' = Front" by (cases view') auto
    have "includes_str (mid @ tail) (CHR ''V'' # ''iew: front'')"
      using inc' by (simp add: Back v' viewName_def)
    then have "includes_str tail (CHR ''V'' # ''iew: front'')"
      using noV by (simp add: includes_str_skip)
    then show ?thesis by (simp add: v' viewName_def)
  qed
  then have "CHR '':'' \<in> set tail"
    by (cases view') (auto dest!: includes_str_set simp: viewName_def)
  with assms(1) show False
    by (auto simp: tail_def plainName_def split: if_splits)
qed

lemma notesOf_view_iff:
  "plainName h \<Longrightarrow>
     includes_str (notesOf view h) (''View: '' @ viewName view') \<longleftrightarrow> view' = view"
  using notesOf_own_view notesOf_other_view by blast

lemma sampleClick_passes: "passesChecks sampleClick readyState"
  by (simp add: check_defs sampleClick_def readyState_def opaqueCanvas_def clickX_def clickY_def
      imageWidth_def imageHeight_def toNatural_def Math_round_def outOfRange_def
      getImageData_alpha_def)

section \<open>Catalog lemmas\<close>

lemma frontHotspots_1_boxes: "list_all boxInUnit frontHotspots_1"
  by (simp add: frontHotspots_1_def boxInUnit_def)

lemma frontHotspots_2_boxes: "list_all boxInUnit frontHotspots_2"
  by (simp add: frontHotspots_2_def boxInUnit_def)

lemma frontHotspots_3_boxes: "list_all boxInUnit frontHotspots_3"
  by (simp add: frontHotspots_3_def boxInUnit_def)

lemma frontHotspots_4_boxes: "list_all boxInUnit frontHotspots_4"
  by (simp add: frontHotspots_4_def boxInUnit_def)

lemma frontHotspots_5_boxes: "list_all boxInUnit frontHotspots_5"
  by (simp add: frontHotspots_5_def boxInUnit_def)

lemma frontHotspots_6_boxes: "list_all boxInUnit frontHotspots_6"
  by (simp add: frontHotspots_6_def boxInUnit_def)

lemma backHotspots_1_boxes: "list_all boxInUnit backHotspots_1"
  by (simp add: backHotspots_1_def boxInUnit_def)

lemma backHotspots_2_boxes: "list_all boxInUnit backHotspots_2"
  by (simp add: backHotspots_2_def boxInUnit_def)

lemma backHotspots_3_boxes: "list_all boxInUnit backHotspots_3"
  by (simp add: backHotspots_3_def boxInUnit_def)

lemma backHotspots_4_boxes: "list_all boxInUnit backHotspots_4"
  by (simp add: backHotspots_4_def boxInUnit_def)

lemma backHotspots_5_boxes: "list_all boxInUnit backHotspots_5"
  by (simp add: backHotspots_5_def boxInUnit_def)

lemma backHotspots_6_boxes: "list_all boxInUnit backHotspots_6"
  by (simp add: backHotspots_6_def boxInUnit_def)

lemma backHotspots_7_boxes: "list_all boxInUnit backHotspots_7"
  by (simp add: backHotspots_7_def boxInUnit_def)

lemma backHotspots_8_boxes: "list_all boxInUnit backHotspots_8"
  by (simp add: backHotspots_8_def boxInUnit_def)

lemma backHotspots_9_boxes: "list_all boxInUnit backHotspots_9"
  by (simp add: backHotspots_9_def boxInUnit_def)

lemma backHotspots_10_boxes: "list_all boxInUnit backHotspots_10"
  by (simp add: backHotspots_10_def boxInUnit_def)

lemma backHotspots_11_boxes: "list_all boxInUnit backHotspots_11"
  by (simp add: backHotspots_11_def boxInUnit_def)

lemma backHotspots_12_boxes: "list_all boxInUnit backHotspots_12"
  by (simp add: backHotspots_12_def boxInUnit_def)

lemma backHotspots_13_boxes: "list_all boxInUnit backHotspots_13"
  by (simp add: backHotspots_13_def boxInUnit_def)

lemma backHotspots_14_boxes: "list_all boxInUnit backHotspots_14"
  by (simp add: backHotspots_14_def boxInUnit_def)

lemma backHotspots_15_boxes: "list_all boxInUnit backHotspots_15"
  by (simp add: backHotspots_15_def boxInUnit_def)

lemma backHotspots_16_boxes: "list_all boxInUnit backHotspots_16"
  by (simp add: backHotspots_16_def boxInUnit_def)

lemma frontHotspots_1_names: "list_all plainName frontHotspots_1"
  by (simp add: frontHotspots_1_def plainName_def)

lemma frontHotspots_2_names: "list_all plainName frontHotspots_2"
  by (simp add: frontHotspots_2_def plainName_def)

lemma frontHotspots_3_names: "list_all plainName frontHotspots_3"
  by (simp add: frontHotspots_3_def plainName_def)

lemma frontHotspots_4_names: "list_all plainName frontHotspots_4"
  by (simp add: frontHotspots_4_def plainName_def)

lemma frontHotspots_5_names: "list_all plainName frontHotspots_5"
  by (simp add: frontHotspots_5_def plainName_def)

lemma frontHotspots_6_names: "list_all plainName frontHotspots_6"
  by (simp add: frontHotspots_6_def plainName_def)

lemma backHotspots_1_names: "list_all plainName backHotspots_1"
  by (simp add: backHotspots_1_def plainName_def)

lemma backHotspots_2_names: "list_all plainName backHotspots_2"
  by (simp add: backHotspots_2_def plainName_def)

lemma backHotspots_3_names: "list_all plainName backHotspots_3"
  by (simp add: backHotspots_3_def plainName_def)

lemma backHotspots_4_names: "list_all plainName backHotspots_4"
  by (simp add: backHotspots_4_def plainName_def)

lemma backHotspots_5_names: "list_all plainName backHotspots_5"
  by (simp add: backHotspots_5_def plainName_def)

lemma backHotspots_6_names: "list_all plainName backHotspots_6"
  by (simp add: backHotspots_6_def plainName_def)

lemma backHotspots_7_names: "list_all plainName backHotspots_7"
  by (simp add: backHotspots_7_def plainName_def)

lemma backHotspots_8_names: "list_all plainName backHotspots_8"
  by (simp add: backHotspots_8_def plainName_def)

lemma backHotspots_9_names: "list_all plainName backHotspots_9"
  by (simp add: backHotspots_9_def plainName_def)

lemma backHotspots_10_names: "list_all plainName backHotspots_10"
  by (simp add: backHotspots_10_def plainName_def)

lemma backHotspots_11_names: "list_all plainName backHotspots_11"
  by (simp add: backHotspots_11_def plainName_def)

lemma backHotspots_12_names: "list_all plainName backHotspots_12"
  by (simp add: backHotspots_12_def plainName_def)

lemma backHotspots_13_names: "list_all plainName backHotspots_13"
  by (simp add: backHotspots_13_def plainName_def)

lemma backHotspots_14_names: "list_all plainName backHotspots_14"
  by (simp add: backHotspots_14_def plainName_def)

lemma backHotspots_15_names: "list_all plainName backHotspots_15"
  by (simp add: backHotspots_15_def plainName_def)

lemma backHotspots_16_names: "list_all plainName backHotspots_16"
  by (simp add: backHotspots_16_def plainName_def)

section \<open>Further lemmas\<close>







lemmas click_defs =
  clickX_def clickY_def imageWidth_def imageHeight_def toNatural_def Math_round_def
  outOfRange_def getImageData_alpha_def

lemma sampleClick_stored_passes: "passesChecks sampleClick storedState"
  by (simp add: check_defs click_defs sampleClick_def storedState_def opaqueCanvas_def)


lemma backHotspots_nonempty: "backHotspots \<noteq> []"
  by (simp add: backHotspots_def backHotspots_1_def)

lemma frontHotspots_nonempty: "frontHotspots \<noteq> []"
  by (simp add: frontHotspots_def frontHotspots_1_def)

lemma hotspotsToSearch_nonempty: "hotspotsToSearch frontHotspots backHotspots st \<noteq> []"
  by (simp add: hotspotsToSearch_def backHotspots_nonempty frontHotspots_nonempty)

lemma sample_id: "string_of_nat 1700000000000 = ''1700000000000''"
  by (simp add: string_of_nat.simps digitChar_def)

lemma passesChecks_addPainArea: "passesChecks ev (addPainArea r st) = passesChecks ev st"
  by (simp add: check_defs addPainArea_def setSelectedPainAreaId_def handlePainAreaUpdate_def)

lemma handleImageClick_accepted:
  assumes "passesChecks ev st"
  shows "\<exists>h \<in> set (hotspotsToSearch frontHotspots backHotspots st).
           handleImageClick ev st = addPainArea (newPainArea (currentView st) ev h) st"
proof -
  from handleImageClickWith_accepted [OF assms hotspotsToSearch_nonempty] obtain i
    where "isFirstClosest ev (hotspotsToSearch frontHotspots backHotspots st) i"
      and "handleImageClick ev st =
             addPainArea (newPainArea (currentView st) ev
                            (hotspotsToSearch frontHotspots backHotspots st ! i)) st"
    unfolding handleImageClick_def by blast
  then show ?thesis
    by (auto simp: isFirstClosest_def intro!: bexI [of _ "hotspotsToSearch frontHotspots backHotspots st ! i"])
qed

lemma tie_example:
  "resolveWith tieCatalog tieCatalog sampleClick readyState = Match (tieCatalog ! 1)"
  unfolding resolveWith_passes [OF sampleClick_passes]
  by (simp add: hotspotsToSearch_def readyState_def tieCatalog_def
      belowMin_def distance_def hsCenterX_def hsCenterY_def clickX_def clickY_def
      imageWidth_def imageHeight_def sampleClick_def)

lemma newPainArea_fields:
  "newPainArea view ev h =
     \<lparr>pa_id = ''point-'' @ string_of_nat (date_now ev),
      pa_region = hs_name h,
      pa_intensity = 5,
      pa_coordinates = Some \<lparr>co_x = clickX ev / 0.85, co_y = clickY ev / 0.85\<rparr>,
      pa_notes = Some (''View: '' @ viewName view @ '', RegionID: '' @ string_of_nat (hs_id h) @
                       (if hs_isDetail h then '', Detail: '' @ hs_name h else []))\<rparr>"
  by (simp add: newPainArea_def Let_def)

lemma pa_coordinates_newPainArea:
  "pa_coordinates (newPainArea view ev h)
     = Some \<lparr>co_x = clickX ev / 0.85, co_y = clickY ev / 0.85\<rparr>"
  by (simp add: newPainArea_def Let_def)

lemma map_pa_id_handleImageClick:
  assumes "passesChecks ev st"
  shows "map pa_id (painAreas (handleImageClick ev st))
           = map pa_id (painAreas st) @ [''point-'' @ string_of_nat (date_now ev)] \<and>
         passesChecks ev' (handleImageClick ev st) = passesChecks ev' st"
proof -
  from handleImageClick_accepted [OF assms] obtain h
    where "handleImageClick ev st = addPainArea (newPainArea (currentView st) ev h) st"
    by blast
  then show ?thesis
    by (simp add: painAreas_addPainArea pa_id_newPainArea passesChecks_addPainArea)
qed

lemma frontHotspots_boxes: "list_all boxInUnit frontHotspots"
  unfolding frontHotspots_def list_all_append
  by (intro conjI frontHotspots_1_boxes frontHotspots_2_boxes frontHotspots_3_boxes frontHotspots_4_boxes
    frontHotspots_5_boxes frontHotspots_6_boxes)

lemma backHotspots_boxes: "list_all boxInUnit backHotspots"
  unfolding backHotspots_def list_all_append
  by (intro conjI backHotspots_1_boxes backHotspots_2_boxes backHotspots_3_boxes backHotspots_4_boxes
    backHotspots_5_boxes backHotspots_6_boxes backHotspots_7_boxes backHotspots_8_boxes
    backHotspots_9_boxes backHotspots_10_boxes backHotspots_11_boxes backHotspots_12_boxes
    backHotspots_13_boxes backHotspots_14_boxes backHotspots_15_boxes backHotspots_16_boxes)

lemma frontHotspots_names: "list_all plainName frontHotspots"
  unfolding frontHotspots_def list_all_append
  by (intro conjI frontHotspots_1_names frontHotspots_2_names frontHotspots_3_names frontHotspots_4_names
    frontHotspots_5_names frontHotspots_6_names)

lemma backHotspots_names: "list_all plainName backHotspots"
  unfolding backHotspots_def list_all_append
  by (intro conjI backHotspots_1_names backHotspots_2_names backHotspots_3_names backHotspots_4_names
    backHotspots_5_names backHotspots_6_names backHotspots_7_names backHotspots_8_names
    backHotspots_9_names backHotspots_10_names backHotspots_11_names backHotspots_12_names
    backHotspots_13_names backHotspots_14_names backHotspots_15_names backHotspots_16_names)

lemma catalog_plainName:
  assumes "h \<in> set (hotspotsToSearch frontHotspots backHotspots st)"
  shows "plainName h"
  using assms frontHotspots_names backHotspots_names
  by (auto simp: hotspotsToSearch_def list_all_iff split: if_splits)

lemma filterByView_created:
  assumes "plainName h"
  shows "filterByView view' [newPainArea view ev h]
           = (if view' = view then [newPainArea view ev h] else [])"
  using notesOf_view_iff [OF assms, of view view']
  by (simp add: filterByView_def pa_notes_newPainArea)

lemma filterByView_append:
  "filterByView view (xs @ ys) = filterByView view xs @ filterByView view ys"
  by (simp add: filterByView_def)

lemma passesChecks_setCurrentView: "passesChecks ev (setCurrentView view st) = passesChecks ev st"
  by (simp add: check_defs setCurrentView_def)

lemma handleImageClick_created:
  assumes "passesChecks ev st"
  shows "\<exists>h. plainName h \<and>
           painAreas (handleImageClick ev st) = painAreas st @ [newPainArea (currentView st) ev h]"
proof -
  from handleImageClick_accepted [OF assms] obtain h
    where "h \<in> set (hotspotsToSearch frontHotspots backHotspots st)"
      and "handleImageClick ev st = addPainArea (newPainArea (currentView st) ev h) st"
    by blast
  then show ?thesis
    using catalog_plainName [of h st] by (auto simp: painAreas_addPainArea)
qed

section \<open>Claims\<close>

subsection \<open>Resolving a click\<close>





subsection \<open>Identifiers\<close>

text \<open>
  C3. No two records of the store share an id. The handler builds the id as
  \<^verbatim>\<open>point-\<close> followed by \<^verbatim>\<open>Date.now()\<close>, so two accepted clicks handled at the
  same clock value get the same id: after two such clicks at 1700000000000 the store
  holds two records, both with id \<^verbatim>\<open>point-1700000000000\<close>.
\<close>

theorem same_millisecond_ids_collide:
  "map pa_id (painAreas (handleImageClick sampleClick (handleImageClick sampleClick readyState)))
     = [''point-1700000000000'', ''point-1700000000000''] \<and>
   \<not> distinct (map pa_id
        (painAreas (handleImageClick sampleClick (handleImageClick sampleClick readyState))))"
proof -
  have one: "map pa_id (painAreas (handleImageClick sampleClick readyState))
               = [''point-1700000000000'']"
    using map_pa_id_handleImageClick [OF sampleClick_passes, of sampleClick]
    by (simp add: sample_id sampleClick_def readyState_def)
  have again: "passesChecks sampleClick (handleImageClick sampleClick readyState)"
    using map_pa_id_handleImageClick [OF sampleClick_passes, of sampleClick] sampleClick_passes
    by simp
  have two: "map pa_id
       (painAreas (handleImageClick sampleClick (handleImageClick sampleClick readyState)))
     = [''point-1700000000000'', ''point-1700000000000'']"
    using map_pa_id_handleImageClick [OF again, of sampleClick] one
    by (simp add: sample_id sampleClick_def)
  show ?thesis unfolding two by simp
qed

subsection \<open>Changing an intensity\<close>

text \<open>
  C4 as stated does not hold: \<^verbatim>\<open>handleIntensityChange\<close> has no range check and
  nothing that fails. On the store \<open>[markA, markB]\<close>, setting the intensity of
  \<^verbatim>\<open>point-1\<close> to \<open>-1\<close> or to \<open>11\<close> stores that value.
\<close>

theorem setIntensity_out_of_range_counterexample:
  "map pa_intensity (painAreas (setIntensity ''point-1'' (- 1) storedState)) = [- 1, 8] \<and>
   map pa_intensity (painAreas (setIntensity ''point-1'' 11 storedState)) = [11, 8] \<and>
   painAreas (setIntensity ''point-1'' (- 1) storedState) \<noteq> painAreas storedState \<and>
   painAreas (setIntensity ''point-1'' 11 storedState) \<noteq> painAreas storedState"
  by (simp add: setIntensity_def handleIntensityChange_def selectedPainArea_def
      setSelectedPainAreaId_def handlePainAreaUpdate_def storedState_def markA_def markB_def)

text \<open>
  C4, amended. For every stored record with a non-empty id (every id the handler
  creates starts with \<^verbatim>\<open>point-\<close>) and every integer \<open>v\<close>, inside \<open>[0, 10]\<close> or not,
  \<open>setIntensity\<close> succeeds: each record with that id gets intensity \<open>v\<close>, every other
  record is kept, and the ids stay as they were, in order. The values 0 and 10 succeed,
  and so do -1 and 11; the range is kept only by the slider that calls the handler
  (\<^verbatim>\<open>min="0" max="10"\<close>).
\<close>

theorem setIntensity_unchecked:
  assumes "i \<noteq> []" and "i \<in> pa_id ` set (painAreas st)"
  shows "painAreas (setIntensity i v st) =
           map (\<lambda>a. if pa_id a = i then a\<lparr>pa_intensity := v\<rparr> else a) (painAreas st) \<and>
         (\<forall>a \<in> set (painAreas (setIntensity i v st)). pa_id a = i \<longrightarrow> pa_intensity a = v) \<and>
         map pa_id (painAreas (setIntensity i v st)) = map pa_id (painAreas st)"
proof -
  have eq: "painAreas (setIntensity i v st) =
           map (\<lambda>a. if pa_id a = i then a\<lparr>pa_intensity := v\<rparr> else a) (painAreas st)"
    by (rule painAreas_setIntensity [OF assms])
  have set: "\<forall>a \<in> set (painAreas (setIntensity i v st)). pa_id a = i \<longrightarrow> pa_intensity a = v"
    unfolding eq by (intro ballI impI) (rule intensity_after_map)
  have ids: "map pa_id (painAreas (setIntensity i v st)) = map pa_id (painAreas st)"
    unfolding eq by (rule map_pa_id_intensity)
  show ?thesis
    by (intro conjI) (fact eq, fact set, fact ids)
qed

theorem setIntensity_unchecked_witness:
  "''point-2'' \<noteq> [] \<and> ''point-2'' \<in> pa_id ` set (painAreas storedState) \<and>
   map pa_intensity (painAreas (setIntensity ''point-2'' 0 storedState)) = [5, 0] \<and>
   map pa_intensity (painAreas (setIntensity ''point-2'' 10 storedState)) = [5, 10] \<and>
   map pa_intensity (painAreas (setIntensity ''point-2'' (- 1) storedState)) = [5, - 1] \<and>
   map pa_intensity (painAreas (setIntensity ''point-2'' 11 storedState)) = [5, 11]"
proof -
  have h1: "''point-2'' \<noteq> []" by simp
  have h2: "''point-2'' \<in> pa_id ` set (painAreas storedState)"
    by (simp add: storedState_def markA_def markB_def)
  have run: "map pa_intensity (painAreas (setIntensity ''point-2'' v storedState))
               = [5, v]" for v
    unfolding setIntensity_unchecked [OF h1 h2, of v, THEN conjunct1]
    by (simp add: storedState_def markA_def markB_def)
  show ?thesis
    by (intro conjI) (fact h1, fact h2, rule run, rule run, rule run, rule run)
qed

subsection \<open>The record of an accepted click\<close>

text \<open>
  C5 as stated does not hold in its last part: the stored coordinates are not the click
  coordinates. A click at (85, 170) of the displayed image is stored at (100, 200).
\<close>

theorem accepted_click_coordinates_counterexample:
  "passesChecks sampleClick readyState \<and>
   clickX sampleClick = 85 \<and> clickY sampleClick = 170 \<and>
   map pa_coordinates (painAreas (handleImageClick sampleClick readyState))
     = [Some \<lparr>co_x = 100, co_y = 200\<rparr>]"
proof -
  from handleImageClick_accepted [OF sampleClick_passes] obtain h
    where "handleImageClick sampleClick readyState
             = addPainArea (newPainArea (currentView readyState) sampleClick h) readyState"
    by blast
  then have "map pa_coordinates (painAreas (handleImageClick sampleClick readyState))
     = [Some \<lparr>co_x = clickX sampleClick / 0.85, co_y = clickY sampleClick / 0.85\<rparr>]"
    by (simp add: painAreas_addPainArea pa_coordinates_newPainArea readyState_def)
  moreover have "clickX sampleClick = 85" "clickY sampleClick = 170"
    by (simp_all add: clickX_def clickY_def sampleClick_def)
  ultimately show ?thesis
    using sampleClick_passes by simp
qed

text \<open>
  C5, amended. For every accepted click the handler appends one record whose region is
  the matched hotspot's name, whose intensity is 5, whose notes are
  \<^verbatim>\<open>View: <view>, RegionID: <id>\<close>, followed by \<^verbatim>\<open>, Detail: <name>\<close> for a detail
  hotspot, and whose coordinates are the click coordinates divided by 0.85, the scale
  of the image container.
\<close>

theorem accepted_click_record:
  assumes "passesChecks ev st" and "hotspotsToSearch fronts backs st \<noteq> []"
  shows "\<exists>h. resolveWith fronts backs ev st = Match h \<and>
           painAreas (handleImageClickWith fronts backs ev st) =
             painAreas st @
             [\<lparr>pa_id = ''point-'' @ string_of_nat (date_now ev),
               pa_region = hs_name h,
               pa_intensity = 5,
               pa_coordinates = Some \<lparr>co_x = clickX ev / 0.85, co_y = clickY ev / 0.85\<rparr>,
               pa_notes = Some (''View: '' @ viewName (currentView st) @ '', RegionID: '' @
                                string_of_nat (hs_id h) @
                                (if hs_isDetail h then '', Detail: '' @ hs_name h else []))\<rparr>]"
proof -
  from resolveWith_first_closest [OF assms] obtain i
    where m: "resolveWith fronts backs ev st = Match (hotspotsToSearch fronts backs st ! i)"
    by blast
  then have "painAreas (handleImageClickWith fronts backs ev st) =
      painAreas st @ [newPainArea (currentView st) ev (hotspotsToSearch fronts backs st ! i)]"
    by (simp add: handleImageClickWith_def painAreas_addPainArea)
  with m show ?thesis
    unfolding newPainArea_fields by blast
qed

theorem accepted_click_record_witness:
  "passesChecks sampleClick readyState \<and>
   hotspotsToSearch tieCatalog tieCatalog readyState \<noteq> [] \<and>
   painAreas (handleImageClickWith tieCatalog tieCatalog sampleClick readyState) =
     [\<lparr>pa_id = ''point-1700000000000'',
       pa_region = ''Near Left'',
       pa_intensity = 5,
       pa_coordinates = Some \<lparr>co_x = 100, co_y = 200\<rparr>,
       pa_notes = Some ''View: back, RegionID: 8, Detail: Near Left''\<rparr>]"
proof -
  have h1: "passesChecks sampleClick readyState" by (rule sampleClick_passes)
  have h2: "hotspotsToSearch tieCatalog tieCatalog readyState \<noteq> []"
    by (simp add: hotspotsToSearch_def tieCatalog_def)
  from accepted_click_record [OF h1 h2] obtain h
    where m: "resolveWith tieCatalog tieCatalog sampleClick readyState = Match h"
      and r: "painAreas (handleImageClickWith tieCatalog tieCatalog sampleClick readyState) =
             painAreas readyState @
             [\<lparr>pa_id = ''point-'' @ string_of_nat (date_now sampleClick),
               pa_region = hs_name h,
               pa_intensity = 5,
               pa_coordinates = Some \<lparr>co_x = clickX sampleClick / 0.85,
                                       co_y = clickY sampleClick / 0.85\<rparr>,
               pa_notes = Some (''View: '' @ viewName (currentView readyState) @
                                '', RegionID: '' @ string_of_nat (hs_id h) @
                                (if hs_isDetail h then '', Detail: '' @ hs_name h else []))\<rparr>]"
    by blast
  from m have h: "h = tieCatalog ! 1" by (simp add: tie_example)
  have n: "date_now sampleClick = 1700000000000" by (simp add: sampleClick_def)
  have i8: "string_of_nat 8 = ''8''" by (simp add: string_of_nat.simps digitChar_def)
  have "painAreas (handleImageClickWith tieCatalog tieCatalog sampleClick readyState) =
     [\<lparr>pa_id = ''point-1700000000000'',
       pa_region = ''Near Left'',
       pa_intensity = 5,
       pa_coordinates = Some \<lparr>co_x = 100, co_y = 200\<rparr>,
       pa_notes = Some ''View: back, RegionID: 8, Detail: Near Left''\<rparr>]"
    unfolding r h n sample_id
    by (simp add: tieCatalog_def readyState_def viewName_def i8 clickX_def clickY_def
        sampleClick_def)
  with h1 h2 show ?thesis by simp
qed

subsection \<open>Filtering by view\<close>

text \<open>
  C6. Starting from an empty store, one accepted click under one view and one accepted
  click under the other view leave two records; filtering by the first view returns
  exactly the first record and filtering by the second view exactly the second. Each
  record is found under the view it was created in and under no other, and the filter
  keeps all and only the records whose notes contain the tag \<^verbatim>\<open>View: <view>\<close>.
\<close>

theorem view_isolation:
  assumes "painAreas st0 = []" and "v1 \<noteq> v2"
    and "passesChecks ev1 (setCurrentView v1 st0)"
    and "st1 = handleImageClick ev1 (setCurrentView v1 st0)"
    and "passesChecks ev2 (setCurrentView v2 st1)"
    and "st2 = handleImageClick ev2 (setCurrentView v2 st1)"
  shows "\<exists>r1 r2. painAreas st1 = [r1] \<and> painAreas st2 = [r1, r2] \<and>
           filterByView v1 (painAreas st2) = [r1] \<and>
           filterByView v2 (painAreas st2) = [r2] \<and>
           (\<forall>v. filterByView v [r1] = (if v = v1 then [r1] else [])) \<and>
           (\<forall>v. filterByView v [r2] = (if v = v2 then [r2] else [])) \<and>
           (\<forall>v. filterByView v (painAreas st2) =
                  filter (\<lambda>a. \<exists>n. pa_notes a = Some n \<and>
                                  includes_str n (''View: '' @ viewName v)) (painAreas st2))"
proof -
  from handleImageClick_created [OF assms(3)] obtain h1
    where h1: "plainName h1"
      and s1: "painAreas st1 = [newPainArea v1 ev1 h1]"
    using assms(1,4) by (auto simp: setCurrentView_def)
  from handleImageClick_created [OF assms(5)] obtain h2
    where h2: "plainName h2"
      and s2: "painAreas st2 = [newPainArea v1 ev1 h1, newPainArea v2 ev2 h2]"
    using assms(6) s1 by (auto simp: setCurrentView_def)
  define r1 where "r1 = newPainArea v1 ev1 h1"
  define r2 where "r2 = newPainArea v2 ev2 h2"
  have f1: "filterByView v [r1] = (if v = v1 then [r1] else [])" for v
    unfolding r1_def by (rule filterByView_created [OF h1])
  have f2: "filterByView v [r2] = (if v = v2 then [r2] else [])" for v
    unfolding r2_def by (rule filterByView_created [OF h2])
  have both: "filterByView v [r1, r2] = filterByView v [r1] @ filterByView v [r2]" for v
    using filterByView_append [of v "[r1]" "[r2]"] by simp
  have a: "filterByView v1 [r1, r2] = [r1]"
    unfolding both f1 f2 using assms(2) by simp
  have b: "filterByView v2 [r1, r2] = [r2]"
    unfolding both f1 f2 using assms(2) by simp
  have c: "filterByView v xs =
             filter (\<lambda>a. \<exists>n. pa_notes a = Some n \<and>
                             includes_str n (''View: '' @ viewName v)) xs" for v xs
    unfolding filterByView_def
    by (rule filter_cong) (auto split: option.splits)
  show ?thesis
    using s1 s2 a b f1 f2 c unfolding r1_def [symmetric] r2_def [symmetric]
    by (intro exI [of _ r1] exI [of _ r2]) simp
qed

theorem view_isolation_witness:
  "painAreas readyState = [] \<and> Front \<noteq> Back \<and>
   passesChecks sampleClick (setCurrentView Front readyState) \<and>
   passesChecks sampleClick
     (setCurrentView Back (handleImageClick sampleClick (setCurrentView Front readyState))) \<and>
   (\<exists>r1 r2.
      painAreas (handleImageClick sampleClick
        (setCurrentView Back (handleImageClick sampleClick (setCurrentView Front readyState))))
        = [r1, r2] \<and>
      filterByView Front (painAreas (handleImageClick sampleClick
        (setCurrentView Back (handleImageClick sampleClick (setCurrentView Front readyState)))))
        = [r1] \<and>
      filterByView Back (painAreas (handleImageClick sampleClick
        (setCurrentView Back (handleImageClick sampleClick (setCurrentView Front readyState)))))
        = [r2])"
proof -
  have e: "painAreas readyState = []" by (simp add: readyState_def)
  have d: "Front \<noteq> Back" by simp
  have p1: "passesChecks sampleClick (setCurrentView Front readyState)"
    by (simp add: passesChecks_setCurrentView sampleClick_passes)
  have p2: "passesChecks sampleClick
     (setCurrentView Back (handleImageClick sampleClick (setCurrentView Front readyState)))"
    using map_pa_id_handleImageClick [OF p1, of sampleClick] p1
    by (simp add: passesChecks_setCurrentView)
  from view_isolation [OF e d p1 refl p2 refl] e d p1 p2 show ?thesis by blast
qed

subsection \<open>Removing a pain area\<close>

text \<open>
  C7. \<^verbatim>\<open>removePainArea\<close> is idempotent and tolerant: removing the same id twice
  gives the state that removing it once gives; removing an id that no stored record has
  leaves the list of pain areas as it was; in general the list afterwards is the list
  before without the records of that id, the others kept in their order; and when the
  stored ids are distinct and the id is present, exactly one record is cut out.
\<close>

theorem removePainArea_idempotent_tolerant:
  "removePainArea i (removePainArea i st) = removePainArea i st \<and>
   (i \<notin> pa_id ` set (painAreas st) \<longrightarrow> painAreas (removePainArea i st) = painAreas st) \<and>
   painAreas (removePainArea i st) = filter (\<lambda>a. pa_id a \<noteq> i) (painAreas st) \<and>
   (distinct (map pa_id (painAreas st)) \<and> i \<in> pa_id ` set (painAreas st) \<longrightarrow>
      (\<exists>ys a zs. painAreas st = ys @ a # zs \<and> pa_id a = i \<and>
                  painAreas (removePainArea i st) = ys @ zs))"
proof (intro conjI impI)
  show "removePainArea i (removePainArea i st) = removePainArea i st"
    by (rule removePainArea_twice)
  show "painAreas (removePainArea i st) = filter (\<lambda>a. pa_id a \<noteq> i) (painAreas st)"
    by (rule painAreas_removePainArea)
next
  assume "i \<notin> pa_id ` set (painAreas st)"
  then show "painAreas (removePainArea i st) = painAreas st"
    by (simp add: painAreas_removePainArea filter_absent_id)
next
  assume "distinct (map pa_id (painAreas st)) \<and> i \<in> pa_id ` set (painAreas st)"
  then show "\<exists>ys a zs. painAreas st = ys @ a # zs \<and> pa_id a = i \<and>
                painAreas (removePainArea i st) = ys @ zs"
    using filter_distinct_split [of "painAreas st" i] by (simp add: painAreas_removePainArea)
qed

theorem removePainArea_idempotent_tolerant_witness:
  "distinct (map pa_id (painAreas storedState)) \<and>
   ''point-1'' \<in> pa_id ` set (painAreas storedState) \<and>
   ''point-9'' \<notin> pa_id ` set (painAreas storedState) \<and>
   painAreas (removePainArea ''point-1'' storedState) = [markB] \<and>
   painAreas (removePainArea ''point-9'' storedState) = painAreas storedState \<and>
   removePainArea ''point-1'' (removePainArea ''point-1'' storedState)
     = removePainArea ''point-1'' storedState"
  using removePainArea_idempotent_tolerant [of "''point-1''" storedState]
    removePainArea_idempotent_tolerant [of "''point-9''" storedState]
  by (simp add: storedState_def markA_def markB_def)

subsection \<open>Adding, then changing the intensity\<close>

text \<open>
  C8. For every record \<open>r\<close> an accepted click adds and every \<open>v\<close> in \<open>[0, 10]\<close>,
  setting the intensity of \<open>r\<close>'s id to \<open>v\<close> afterwards leaves, at \<open>r\<close>'s position, the
  record \<open>r\<close> with intensity \<open>v\<close> and with its id, region, coordinates and notes
  unchanged; the store keeps its length, and every record with a different id stays
  unchanged at its position.
\<close>

theorem add_then_setIntensity:
  assumes "passesChecks ev st" and "hotspotsToSearch fronts backs st \<noteq> []"
    and "0 \<le> v" and "v \<le> 10"
  shows "\<exists>r. painAreas (handleImageClickWith fronts backs ev st) = painAreas st @ [r] \<and>
     pa_id r = ''point-'' @ string_of_nat (date_now ev) \<and>
     length (painAreas (setIntensity (pa_id r) v (handleImageClickWith fronts backs ev st)))
       = length (painAreas st) + 1 \<and>
     painAreas (setIntensity (pa_id r) v (handleImageClickWith fronts backs ev st))
       ! length (painAreas st) = r\<lparr>pa_intensity := v\<rparr> \<and>
     pa_intensity (r\<lparr>pa_intensity := v\<rparr>) = v \<and>
     pa_id (r\<lparr>pa_intensity := v\<rparr>) = pa_id r \<and>
     pa_region (r\<lparr>pa_intensity := v\<rparr>) = pa_region r \<and>
     pa_coordinates (r\<lparr>pa_intensity := v\<rparr>) = pa_coordinates r \<and>
     pa_notes (r\<lparr>pa_intensity := v\<rparr>) = pa_notes r \<and>
     (\<forall>k < length (painAreas st). pa_id (painAreas st ! k) \<noteq> pa_id r \<longrightarrow>
        painAreas (setIntensity (pa_id r) v (handleImageClickWith fronts backs ev st)) ! k
          = painAreas st ! k)"
proof -
  from handleImageClickWith_accepted [OF assms(1,2)] obtain h
    where run: "handleImageClickWith fronts backs ev st
                  = addPainArea (newPainArea (currentView st) ev h) st"
    by blast
  define r where "r = newPainArea (currentView st) ev h"
  have rid: "pa_id r = ''point-'' @ string_of_nat (date_now ev)"
    by (simp add: r_def pa_id_newPainArea)
  then have ne: "pa_id r \<noteq> []" by simp
  have after: "painAreas (setIntensity (pa_id r) v (handleImageClickWith fronts backs ev st))
      = map (\<lambda>a. if pa_id a = pa_id r then a\<lparr>pa_intensity := v\<rparr> else a) (painAreas st)
        @ [r\<lparr>pa_intensity := v\<rparr>]"
    using setIntensity_after_add [OF ne, of v st] by (simp add: run r_def)
  have added: "painAreas (handleImageClickWith fronts backs ev st) = painAreas st @ [r]"
    by (simp add: run r_def painAreas_addPainArea)
  have others: "\<forall>k < length (painAreas st). pa_id (painAreas st ! k) \<noteq> pa_id r \<longrightarrow>
        painAreas (setIntensity (pa_id r) v (handleImageClickWith fronts backs ev st)) ! k
          = painAreas st ! k"
    unfolding after by (intro allI impI nth_map_other_id)
  have len: "length (painAreas (setIntensity (pa_id r) v (handleImageClickWith fronts backs ev st)))
       = length (painAreas st) + 1"
    unfolding after by simp
  have last: "painAreas (setIntensity (pa_id r) v (handleImageClickWith fronts backs ev st))
       ! length (painAreas st) = r\<lparr>pa_intensity := v\<rparr>"
    unfolding after by (simp add: nth_append)
  show ?thesis
    using added rid len last others by (intro exI [of _ r]) simp
qed

theorem add_then_setIntensity_witness:
  "passesChecks sampleClick storedState \<and>
   hotspotsToSearch tieCatalog tieCatalog storedState \<noteq> [] \<and>
   (0::int) \<le> 8 \<and> (8::int) \<le> 10 \<and>
   (\<exists>r. painAreas (handleImageClickWith tieCatalog tieCatalog sampleClick storedState)
           = [markA, markB, r] \<and>
        pa_id r = ''point-1700000000000'' \<and>
        painAreas (setIntensity (pa_id r) 8
                     (handleImageClickWith tieCatalog tieCatalog sampleClick storedState)) ! 2
           = r\<lparr>pa_intensity := 8\<rparr> \<and>
        painAreas (setIntensity (pa_id r) 8
                     (handleImageClickWith tieCatalog tieCatalog sampleClick storedState)) ! 0
           = markA \<and>
        painAreas (setIntensity (pa_id r) 8
                     (handleImageClickWith tieCatalog tieCatalog sampleClick storedState)) ! 1
           = markB)"
proof -
  have h1: "passesChecks sampleClick storedState" by (rule sampleClick_stored_passes)
  have h2: "hotspotsToSearch tieCatalog tieCatalog storedState \<noteq> []"
    by (simp add: hotspotsToSearch_def tieCatalog_def)
  have h3: "(0::int) \<le> 8" and h4: "(8::int) \<le> 10" by simp_all
  have st: "painAreas storedState = [markA, markB]" by (simp add: storedState_def)
  have n: "''point-'' @ string_of_nat (date_now sampleClick) = ''point-1700000000000''"
    by (simp add: sampleClick_def sample_id)
  from add_then_setIntensity [OF h1 h2 h3 h4] obtain r
    where a: "painAreas (handleImageClickWith tieCatalog tieCatalog sampleClick storedState)
                = painAreas storedState @ [r]"
      and b: "pa_id r = ''point-'' @ string_of_nat (date_now sampleClick)"
      and c: "painAreas (setIntensity (pa_id r) 8
                 (handleImageClickWith tieCatalog tieCatalog sampleClick storedState))
                ! length (painAreas storedState) = r\<lparr>pa_intensity := 8\<rparr>"
      and d: "\<forall>k < length (painAreas storedState).
                pa_id (painAreas storedState ! k) \<noteq> pa_id r \<longrightarrow>
                painAreas (setIntensity (pa_id r) 8
                  (handleImageClickWith tieCatalog tieCatalog sampleClick storedState)) ! k
                  = painAreas storedState ! k"
    by blast
  have rid: "pa_id r = ''point-1700000000000''" using b n by simp
  have d0: "painAreas (setIntensity (pa_id r) 8
              (handleImageClickWith tieCatalog tieCatalog sampleClick storedState)) ! 0 = markA"
    using d [rule_format, of 0] by (simp add: st rid markA_def)
  have d1: "painAreas (setIntensity (pa_id r) 8
              (handleImageClickWith tieCatalog tieCatalog sampleClick storedState)) ! 1 = markB"
    using d [rule_format, of 1] by (simp add: st rid markB_def)
  have c2: "painAreas (setIntensity (pa_id r) 8
              (handleImageClickWith tieCatalog tieCatalog sampleClick storedState)) ! 2
              = r\<lparr>pa_intensity := 8\<rparr>"
    using c by (simp add: st numeral_2_eq_2)
  have a2: "painAreas (handleImageClickWith tieCatalog tieCatalog sampleClick storedState)
              = [markA, markB, r]"
    using a by (simp add: st)
  show ?thesis
    using h1 h2 a2 rid c2 d0 d1 by (intro conjI exI [of _ r]) simp_all
qed

subsection \<open>The catalog data\<close>

text \<open>
  C9. Every entry of \<^verbatim>\<open>frontHotspots\<close> and of \<^verbatim>\<open>backHotspots\<close> has \<open>x\<close>, \<open>y\<close>,
  \<open>width\<close> and \<open>height\<close> within \<open>[0, 1]\<close>.
\<close>

theorem catalog_boxes_in_unit:
  "\<forall>h \<in> set frontHotspots \<union> set backHotspots.
     0 \<le> hs_x h \<and> hs_x h \<le> 1 \<and> 0 \<le> hs_y h \<and> hs_y h \<le> 1 \<and>
     0 \<le> hs_width h \<and> hs_width h \<le> 1 \<and> 0 \<le> hs_height h \<and> hs_height h \<le> 1"
proof
  fix h assume "h \<in> set frontHotspots \<union> set backHotspots"
  with frontHotspots_boxes backHotspots_boxes have "boxInUnit h"
    by (auto simp: list_all_iff)
  then show "0 \<le> hs_x h \<and> hs_x h \<le> 1 \<and> 0 \<le> hs_y h \<and> hs_y h \<le> 1 \<and>
     0 \<le> hs_width h \<and> hs_width h \<le> 1 \<and> 0 \<le> hs_height h \<and> hs_height h \<le> 1"
    by (simp add: boxInUnit_def)
qed

theorem catalog_boxes_in_unit_witness:
  "frontHotspots ! 0 \<in> set frontHotspots \<union> set backHotspots \<and>
   backHotspots ! 0 \<in> set frontHotspots \<union> set backHotspots \<and>
   0 \<le> hs_x (frontHotspots ! 0) \<and> hs_x (frontHotspots ! 0) \<le> 1 \<and>
   0 \<le> hs_height (backHotspots ! 0) \<and> hs_height (backHotspots ! 0) \<le> 1"
proof -
  have f: "frontHotspots ! 0 \<in> set frontHotspots \<union> set backHotspots"
    using frontHotspots_nonempty by simp
  have b: "backHotspots ! 0 \<in> set frontHotspots \<union> set backHotspots"
    using backHotspots_nonempty by simp
  from catalog_boxes_in_unit f b show ?thesis by blast
qed

subsection \<open>Sampling the raster\<close>




end
